theory Spec2Isabelle
  imports Complex_Main "HOL-Library.AList" "HOL-Library.Sublist"
begin

section \<open>Python values\<close>

text \<open>
  The inventory records, Knowledge Base entries and research results of the toolkit are
  Python dictionaries with string keys and values of any type. A dictionary is an
  association list in insertion order (the order Python iterates it in); assignment
  \<^verbatim>\<open>d[k] = v\<close> is \<open>AList.update\<close>, which overwrites in place or appends at the end.
  Floats are modelled by the rationals they denote (no NaN, no infinities).
\<close>

datatype pyval =
    VNone
  | VBool bool
  | VInt int
  | VFloat rat
  | VStr string
  | VList "pyval list"
  | VDict "(string \<times> pyval) list"

type_synonym pydict = "(string \<times> pyval) list"

datatype py_error = AttributeError | TypeError | KeyError pyval

text \<open>\<^verbatim>\<open>d.get(k, default)\<close> and \<^verbatim>\<open>d.get(k)\<close>.\<close>

definition dict_get :: "pydict \<Rightarrow> string \<Rightarrow> pyval \<Rightarrow> pyval" where
  "dict_get d k dflt = (case map_of d k of None \<Rightarrow> dflt | Some v \<Rightarrow> v)"

definition dict_get0 :: "pydict \<Rightarrow> string \<Rightarrow> pyval" where
  "dict_get0 d k = dict_get d k VNone"

text \<open>Truth value of an object in a boolean context.\<close>

fun truthy :: "pyval \<Rightarrow> bool" where
  "truthy VNone = False"
| "truthy (VBool b) = b"
| "truthy (VInt i) = (i \<noteq> 0)"
| "truthy (VFloat q) = (q \<noteq> 0)"
| "truthy (VStr s) = (s \<noteq> [])"
| "truthy (VList xs) = (xs \<noteq> [])"
| "truthy (VDict d) = (d \<noteq> [])"

text \<open>
  \<^verbatim>\<open>str.lower()\<close>, on ASCII letters. Calling \<^verbatim>\<open>.lower()\<close> on a value that is not a
  string raises AttributeError.
\<close>

definition lower_char :: "char \<Rightarrow> char" where
  "lower_char c =
     (let n = (of_char c :: nat) in if 65 \<le> n \<and> n \<le> 90 then char_of (n + 32) else c)"

definition lower :: "string \<Rightarrow> string" where
  "lower s = map lower_char s"

fun py_lower :: "pyval \<Rightarrow> py_error + string" where
  "py_lower (VStr s) = Inr (lower s)"
| "py_lower _ = Inl AttributeError"

text \<open>
  \<^verbatim>\<open>str(v)\<close>, as an f-string renders a field: a string is itself; the rendering of every
  other value (numbers, None, lists) belongs to the Python runtime and is the parameter
  \<open>render\<close>.
\<close>

fun py_str :: "(pyval \<Rightarrow> string) \<Rightarrow> pyval \<Rightarrow> string" where
  "py_str render (VStr s) = s"
| "py_str render v = render v"

text \<open>
  \<^verbatim>\<open>v > t\<close> against a numeric threshold: defined on numbers (bool is a subclass of
  int), TypeError on everything else.
\<close>

fun py_gt :: "pyval \<Rightarrow> rat \<Rightarrow> py_error + bool" where
  "py_gt (VBool b) t = Inr ((if b then 1 else 0) > t)"
| "py_gt (VInt i) t = Inr (of_int i > t)"
| "py_gt (VFloat q) t = Inr (q > t)"
| "py_gt _ t = Inl TypeError"

text \<open>
  \<^verbatim>\<open>needle in v\<close> for a string needle: substring of a string, element of a list, key
  of a dictionary; TypeError on a value that is not a container.
\<close>

fun py_contains :: "pyval \<Rightarrow> string \<Rightarrow> py_error + bool" where
  "py_contains (VStr s) needle = Inr (sublist needle s)"
| "py_contains (VList xs) needle = Inr (VStr needle \<in> set xs)"
| "py_contains (VDict d) needle = Inr (needle \<in> fst ` set d)"
| "py_contains _ needle = Inl TypeError"

section \<open>Suspect filter (src/analyzers/suspect\_filter.py)\<close>

text \<open>
  A compiled regular expression: its source string (\<^verbatim>\<open>pattern.pattern\<close>) and its
  \<^verbatim>\<open>search\<close> method, whose result is used only for its truth value. The regular
  expression engine is Python's \<^verbatim>\<open>re\<close> module, so \<^verbatim>\<open>re.compile\<close> is a parameter:
  it returns None where the module raises \<^verbatim>\<open>re.error\<close>.
\<close>

record compiled_pattern =
  pattern :: string
  search :: "string \<Rightarrow> bool"

definition DEFAULT_PATTERNS :: "string list" where
  "DEFAULT_PATTERNS =
    [''(?i)chroma'', ''(?i)synapse'', ''(?i)icue'', ''(?i)corsair'',
     ''(?i)logitech.*gaming'', ''(?i)razer'', ''(?i)copilot'', ''(?i)recall'',
     ''(?i)cortana'', ''(?i)gamebar'', ''(?i)xbox(?!.*identity)'', ''(?i)yourphone'',
     ''(?i)teams'', ''(?i)onedrive'', ''(?i)edge.*update'', ''(?i)adobe.*update'',
     ''(?i)google.*update'', ''(?i)spotify'', ''(?i)discord'', ''(?i)steam'',
     ''(?i)epic.*games'', ''(?i)riot'', ''(?i)nvidia.*telemetry'',
     ''(?i)geforce.*experience'']"

text \<open>
  The configuration the constructor reads, after YAML loading: the
  \<^verbatim>\<open>suspect_filter\<close> section of the settings, and the
  \<^verbatim>\<open>critical_keep_list\<close> of the manifest. A key that is absent from the settings is
  None here and takes the constructor's default.
\<close>

record filter_settings =
  bloatware_patterns :: "string list"
  high_memory_threshold_percent :: "rat option"
  high_cpu_threshold_percent :: "rat option"
  flag_non_microsoft_setting :: "bool option"

record manifest =
  keep_processes :: "string list"
  keep_services :: "string list"

record suspect_filter =
  known_processes :: "(string \<times> pydict) list"
  patterns :: "compiled_pattern list"
  critical_keep :: "string set"
  high_memory_threshold :: rat
  high_cpu_threshold :: rat
  flag_non_microsoft :: bool

text \<open>\<^verbatim>\<open>_compile_patterns\<close>: defaults first, then the settings' patterns; a pattern
  that does not compile is skipped.\<close>

fun compile_all :: "(string \<Rightarrow> (string \<Rightarrow> bool) option) \<Rightarrow> string list \<Rightarrow> compiled_pattern list" where
  "compile_all re_compile [] = []"
| "compile_all re_compile (p # ps) =
     (case re_compile p of
        None \<Rightarrow> compile_all re_compile ps
      | Some m \<Rightarrow> \<lparr>pattern = p, search = m\<rparr> # compile_all re_compile ps)"

definition compile_patterns ::
  "(string \<Rightarrow> (string \<Rightarrow> bool) option) \<Rightarrow> filter_settings \<Rightarrow> compiled_pattern list" where
  "compile_patterns re_compile settings =
     compile_all re_compile (DEFAULT_PATTERNS @ bloatware_patterns settings)"

text \<open>\<^verbatim>\<open>_build_critical_keep_set\<close>.\<close>

definition build_critical_keep_set :: "manifest \<Rightarrow> (string \<times> pydict) list \<Rightarrow> string set" where
  "build_critical_keep_set m known =
     set (map lower (keep_processes m)) \<union> set (map lower (keep_services m)) \<union>
     set (map (lower \<circ> fst)
            (filter (\<lambda>(name, info). dict_get0 info ''safety_rating'' = VStr ''CRITICAL'') known))"

text \<open>\<^verbatim>\<open>__init__\<close>.\<close>

definition init_filter ::
  "(string \<Rightarrow> (string \<Rightarrow> bool) option) \<Rightarrow> filter_settings \<Rightarrow> (string \<times> pydict) list \<Rightarrow>
     manifest \<Rightarrow> suspect_filter" where
  "init_filter re_compile settings known m =
     \<lparr>known_processes = known,
      patterns = compile_patterns re_compile settings,
      critical_keep = build_critical_keep_set m known,
      high_memory_threshold =
        (case high_memory_threshold_percent settings of None \<Rightarrow> 2 | Some t \<Rightarrow> t),
      high_cpu_threshold =
        (case high_cpu_threshold_percent settings of None \<Rightarrow> 5 | Some t \<Rightarrow> t),
      flag_non_microsoft =
        (case flag_non_microsoft_setting settings of None \<Rightarrow> True | Some b \<Rightarrow> b)\<rparr>"

text \<open>
  The pattern loop shared by the four reason functions:
  \<^verbatim>\<open>for pattern in self.patterns: if pattern.search(full_text): reasons.append(...); break\<close>.
\<close>

fun match_patterns :: "compiled_pattern list \<Rightarrow> string \<Rightarrow> string list \<Rightarrow> string list" where
  "match_patterns [] full_text reasons = reasons"
| "match_patterns (p # ps) full_text reasons =
     (if search p full_text
      then reasons @ [''Matches bloatware pattern: '' @ pattern p]
      else match_patterns ps full_text reasons)"

text \<open>\<^verbatim>\<open>_get_suspect_reasons_process\<close>.\<close>

definition process_text :: "(pyval \<Rightarrow> string) \<Rightarrow> pydict \<Rightarrow> string" where
  "process_text render proc =
     py_str render (dict_get proc ''name'' (VStr '''')) @ '' '' @
     py_str render (dict_get proc ''exe_path'' (VStr '''')) @ '' '' @
     py_str render (dict_get proc ''cmdline'' (VStr ''''))"

definition signature_reasons ::
  "(pyval \<Rightarrow> string) \<Rightarrow> suspect_filter \<Rightarrow> pydict \<Rightarrow> string list \<Rightarrow> py_error + string list" where
  "signature_reasons render f proc reasons =
     (if flag_non_microsoft f then
        (let signature = dict_get0 proc ''signature'' in
         if truthy signature then
           (case py_contains signature ''Microsoft'' of
              Inl e \<Rightarrow> Inl e
            | Inr has \<Rightarrow>
                if \<not> has
                then Inr (reasons @ [''Non-Microsoft signed: '' @ py_str render signature])
                else if signature = VNone \<and> truthy (dict_get0 proc ''exe_path'')
                then Inr (reasons @ [''Unsigned or signature not found''])
                else Inr reasons)
         else if signature = VNone \<and> truthy (dict_get0 proc ''exe_path'')
         then Inr (reasons @ [''Unsigned or signature not found''])
         else Inr reasons)
      else Inr reasons)"

definition get_suspect_reasons_process ::
  "(pyval \<Rightarrow> string) \<Rightarrow> suspect_filter \<Rightarrow> pydict \<Rightarrow> py_error + string list" where
  "get_suspect_reasons_process render f proc =
     (case py_lower (dict_get proc ''name'' (VStr '''')) of
        Inl e \<Rightarrow> Inl e
      | Inr name \<Rightarrow>
          if name \<in> critical_keep f then Inr []
          else
            (let reasons = match_patterns (patterns f) (process_text render proc) [];
                 mem_percent = dict_get proc ''memory_percent'' (VInt 0)
             in case py_gt mem_percent (high_memory_threshold f) of
                  Inl e \<Rightarrow> Inl e
                | Inr high_mem \<Rightarrow>
                    (let reasons =
                           (if high_mem
                            then reasons @ [''High memory usage: '' @ py_str render mem_percent @ ''%'']
                            else reasons);
                         cpu_percent = dict_get proc ''cpu_percent'' (VInt 0)
                     in case py_gt cpu_percent (high_cpu_threshold f) of
                          Inl e \<Rightarrow> Inl e
                        | Inr high_cpu \<Rightarrow>
                            (let reasons =
                                   (if high_cpu
                                    then reasons @ [''High CPU usage: '' @ py_str render cpu_percent @ ''%'']
                                    else reasons)
                             in signature_reasons render f proc reasons))))"

text \<open>\<^verbatim>\<open>_get_suspect_reasons_service\<close>.\<close>

definition service_text :: "(pyval \<Rightarrow> string) \<Rightarrow> pydict \<Rightarrow> string" where
  "service_text render svc =
     py_str render (dict_get svc ''name'' (VStr '''')) @ '' '' @
     py_str render (dict_get svc ''display_name'' (VStr '''')) @ '' '' @
     py_str render (dict_get svc ''path'' (VStr ''''))"

definition get_suspect_reasons_service ::
  "(pyval \<Rightarrow> string) \<Rightarrow> suspect_filter \<Rightarrow> pydict \<Rightarrow> py_error + string list" where
  "get_suspect_reasons_service render f svc =
     (case py_lower (dict_get svc ''name'' (VStr '''')) of
        Inl e \<Rightarrow> Inl e
      | Inr name \<Rightarrow>
          if name \<in> critical_keep f then Inr []
          else
            (let reasons = match_patterns (patterns f) (service_text render svc) [];
                 reasons =
                   (if \<not> truthy (dict_get0 svc ''is_microsoft'') \<and>
                       dict_get0 svc ''start_mode'' = VStr ''Auto''
                    then reasons @ [''Third-party service set to Auto start'']
                    else reasons);
                 reasons =
                   (if \<not> truthy (dict_get0 svc ''is_microsoft'') \<and>
                       dict_get0 svc ''state'' = VStr ''Running''
                    then reasons @ [''Third-party service currently running'']
                    else reasons)
             in Inr reasons))"

text \<open>\<^verbatim>\<open>_get_suspect_reasons_startup\<close>.\<close>

definition startup_text :: "(pyval \<Rightarrow> string) \<Rightarrow> pydict \<Rightarrow> string" where
  "startup_text render item =
     py_str render (dict_get item ''name'' (VStr '''')) @ '' '' @
     py_str render (dict_get item ''command'' (VStr ''''))"

definition get_suspect_reasons_startup ::
  "(pyval \<Rightarrow> string) \<Rightarrow> suspect_filter \<Rightarrow> pydict \<Rightarrow> py_error + string list" where
  "get_suspect_reasons_startup render f item =
     (case py_lower (dict_get item ''name'' (VStr '''')) of
        Inl e \<Rightarrow> Inl e
      | Inr name \<Rightarrow>
          if name \<in> critical_keep f then Inr []
          else
            (let reasons = match_patterns (patterns f) (startup_text render item) [];
                 reasons =
                   (if truthy (dict_get item ''enabled'' (VBool True))
                    then reasons @ [''Enabled startup item'']
                    else reasons)
             in Inr reasons))"

text \<open>\<^verbatim>\<open>_get_suspect_reasons_task\<close>.\<close>

definition task_text :: "(pyval \<Rightarrow> string) \<Rightarrow> pydict \<Rightarrow> string" where
  "task_text render task =
     py_str render (dict_get task ''name'' (VStr '''')) @ '' '' @
     py_str render (dict_get task ''path'' (VStr '''')) @ '' '' @
     py_str render (dict_get task ''actions'' (VStr ''''))"

definition get_suspect_reasons_task ::
  "(pyval \<Rightarrow> string) \<Rightarrow> suspect_filter \<Rightarrow> pydict \<Rightarrow> py_error + string list" where
  "get_suspect_reasons_task render f task =
     (case py_lower (dict_get task ''name'' (VStr '''')) of
        Inl e \<Rightarrow> Inl e
      | Inr name \<Rightarrow>
          if name \<in> critical_keep f then Inr []
          else
            (let reasons = match_patterns (patterns f) (task_text render task) [];
                 reasons =
                   (if \<not> truthy (dict_get0 task ''is_microsoft'') \<and>
                       truthy (dict_get0 task ''runs_at_logon'')
                    then reasons @ [''Third-party task runs at logon/boot'']
                    else reasons);
                 reasons =
                   (if \<not> truthy (dict_get0 task ''is_microsoft'') \<and>
                       dict_get0 task ''state'' = VStr ''Ready''
                    then reasons @ [''Third-party task is enabled'']
                    else reasons)
             in Inr reasons))"

text \<open>
  \<^verbatim>\<open>_get_known_info\<close>: exact key, then the first key equal up to case. The key test
  \<^verbatim>\<open>name in self.known_processes\<close> raises TypeError on an unhashable name (a list or a
  dictionary); any other name that is not a string is no key and fails at
  \<^verbatim>\<open>name.lower()\<close>.
\<close>

fun find_ci :: "string \<Rightarrow> (string \<times> pydict) list \<Rightarrow> pydict option" where
  "find_ci name_lower [] = None"
| "find_ci name_lower ((known_name, info) # rest) =
     (if lower known_name = name_lower then Some info else find_ci name_lower rest)"

fun get_known_info :: "suspect_filter \<Rightarrow> pyval \<Rightarrow> py_error + pyval" where
  "get_known_info f (VStr name) =
     (case map_of (known_processes f) name of
        Some info \<Rightarrow> Inr (VDict info)
      | None \<Rightarrow>
          (case find_ci (lower name) (known_processes f) of
             Some info \<Rightarrow> Inr (VDict info)
           | None \<Rightarrow> Inr VNone))"
| "get_known_info f (VList xs) = Inl TypeError"
| "get_known_info f (VDict d) = Inl TypeError"
| "get_known_info f v = Inl AttributeError"

text \<open>
  The body of the loops of \<^verbatim>\<open>filter_processes\<close>, \<^verbatim>\<open>filter_services\<close>,
  \<^verbatim>\<open>filter_startup_items\<close> and \<^verbatim>\<open>filter_tasks\<close>, which differ only in the reason
  function they call. The record is mutated in place: the result is the record as the
  body leaves it, and the exception if one was raised on the way.
\<close>

definition mark_item ::
  "(pydict \<Rightarrow> py_error + string list) \<Rightarrow> suspect_filter \<Rightarrow> pydict \<Rightarrow> pydict \<times> py_error option" where
  "mark_item get_reasons f item =
     (case get_reasons item of
        Inl e \<Rightarrow> (item, Some e)
      | Inr reasons \<Rightarrow>
          (let item = AList.update ''is_suspect'' (VBool (length reasons > 0)) item;
               item = AList.update ''suspect_reasons'' (VList (map VStr reasons)) item
           in case get_known_info f (dict_get item ''name'' (VStr [])) of
                Inl e \<Rightarrow> (item, Some e)
              | Inr info \<Rightarrow> (AList.update ''known_info'' info item, None)))"

text \<open>
  The loop over the list: the records after the call, and the exception that ended it
  early, if any. Records behind the one that raised are untouched.
\<close>

fun filter_loop ::
  "(pydict \<Rightarrow> pydict \<times> py_error option) \<Rightarrow> pydict list \<Rightarrow> pydict list \<times> py_error option" where
  "filter_loop body [] = ([], None)"
| "filter_loop body (item # items) =
     (case body item of
        (item', Some e) \<Rightarrow> (item' # items, Some e)
      | (item', None) \<Rightarrow>
          (case filter_loop body items of (items', r) \<Rightarrow> (item' # items', r)))"

definition filter_processes ::
  "(pyval \<Rightarrow> string) \<Rightarrow> suspect_filter \<Rightarrow> pydict list \<Rightarrow> pydict list \<times> py_error option" where
  "filter_processes render f processes =
     filter_loop (mark_item (get_suspect_reasons_process render f) f) processes"

definition filter_services ::
  "(pyval \<Rightarrow> string) \<Rightarrow> suspect_filter \<Rightarrow> pydict list \<Rightarrow> pydict list \<times> py_error option" where
  "filter_services render f services =
     filter_loop (mark_item (get_suspect_reasons_service render f) f) services"

definition filter_startup_items ::
  "(pyval \<Rightarrow> string) \<Rightarrow> suspect_filter \<Rightarrow> pydict list \<Rightarrow> pydict list \<times> py_error option" where
  "filter_startup_items render f items =
     filter_loop (mark_item (get_suspect_reasons_startup render f) f) items"

definition filter_tasks ::
  "(pyval \<Rightarrow> string) \<Rightarrow> suspect_filter \<Rightarrow> pydict list \<Rightarrow> pydict list \<times> py_error option" where
  "filter_tasks render f tasks =
     filter_loop (mark_item (get_suspect_reasons_task render f) f) tasks"

section \<open>Researcher (src/analyzers/ai\_researcher.py)\<close>

text \<open>
  \<^verbatim>\<open>_lookup_known\<close>: exact key, then the first key equal up to case, then the first key
  that contains the name or is contained in it (both lower-cased).
\<close>

fun find_partial :: "string \<Rightarrow> (string \<times> pydict) list \<Rightarrow> pydict option" where
  "find_partial name_lower [] = None"
| "find_partial name_lower ((known_name, info) # rest) =
     (if sublist (lower known_name) name_lower \<or> sublist name_lower (lower known_name)
      then Some info else find_partial name_lower rest)"

fun lookup_known :: "(string \<times> pydict) list \<Rightarrow> pyval \<Rightarrow> py_error + pyval" where
  "lookup_known kb (VStr name) =
     (case map_of kb name of
        Some info \<Rightarrow> Inr (VDict info)
      | None \<Rightarrow>
          (case find_ci (lower name) kb of
             Some info \<Rightarrow> Inr (VDict info)
           | None \<Rightarrow>
               (case find_partial (lower name) kb of
                  Some info \<Rightarrow> Inr (VDict info)
                | None \<Rightarrow> Inr VNone)))"
| "lookup_known kb (VList xs) = Inl TypeError"
| "lookup_known kb (VDict d) = Inl TypeError"
| "lookup_known kb v = Inl AttributeError"

text \<open>\<^verbatim>\<open>_guess_category\<close>.\<close>

definition has_keyword :: "string list \<Rightarrow> string \<Rightarrow> string \<Rightarrow> bool" where
  "has_keyword keywords name path = list_ex (\<lambda>x. sublist x name \<or> sublist x path) keywords"

definition guess_path :: "(pyval \<Rightarrow> string) \<Rightarrow> pydict \<Rightarrow> string" where
  "guess_path render item =
     lower (py_str render
       (dict_get item ''exe_path'' (dict_get item ''path'' (dict_get item ''command'' (VStr [])))))"

definition guess_category :: "(pyval \<Rightarrow> string) \<Rightarrow> pydict \<Rightarrow> py_error + string" where
  "guess_category render item =
     (case py_lower (dict_get item ''name'' (VStr [])) of
        Inl e \<Rightarrow> Inl e
      | Inr name \<Rightarrow>
          (let path = guess_path render item in
           Inr (if has_keyword [''update'', ''updater''] name path then ''updater''
                else if has_keyword [''rgb'', ''chroma'', ''lighting'', ''icue''] name path
                  then ''rgb_software''
                else if has_keyword [''copilot'', ''recall'', ''cortana'', ''ai''] name path
                  then ''ai_feature''
                else if has_keyword [''telemetry'', ''diag'', ''feedback''] name path
                  then ''telemetry''
                else if has_keyword [''game'', ''steam'', ''epic'', ''xbox''] name path
                  then ''gaming''
                else if has_keyword [''driver'', ''drv''] name path then ''driver''
                else if has_keyword [''security'', ''antivirus'', ''defender''] name path
                  then ''security''
                else ''unknown'')))"

text \<open>\<^verbatim>\<open>_extract_publisher\<close>.\<close>

definition publishers :: "(string \<times> string) list" where
  "publishers =
     [(''microsoft'', ''Microsoft''), (''google'', ''Google''), (''adobe'', ''Adobe''),
      (''nvidia'', ''NVIDIA''), (''amd'', ''AMD''), (''intel'', ''Intel''),
      (''razer'', ''Razer Inc.''), (''corsair'', ''Corsair''), (''logitech'', ''Logitech''),
      (''steam'', ''Valve''), (''discord'', ''Discord Inc.'')]"

fun find_publisher :: "(string \<times> string) list \<Rightarrow> string \<Rightarrow> pyval" where
  "find_publisher [] path = VNone"
| "find_publisher ((key, publisher) # rest) path =
     (if sublist key path then VStr publisher else find_publisher rest path)"

definition extract_publisher :: "(pyval \<Rightarrow> string) \<Rightarrow> pydict \<Rightarrow> pyval" where
  "extract_publisher render item =
     (if truthy (dict_get0 item ''signature'') then dict_get0 item ''signature''
      else if truthy (dict_get0 item ''author'') then dict_get0 item ''author''
      else find_publisher publishers
             (lower (py_str render (dict_get item ''exe_path'' (dict_get item ''path'' (VStr []))))))"

text \<open>
  \<^verbatim>\<open>_generate_research_notes\<close>. The loop \<^verbatim>\<open>for reason in reasons\<close> iterates a list, the
  characters of a string or the keys of a dictionary, and raises TypeError on any other
  value that is true.
\<close>

definition py_or :: "pyval \<Rightarrow> pyval \<Rightarrow> pyval" where
  "py_or a b = (if truthy a then a else b)"

fun py_iter :: "pyval \<Rightarrow> py_error + pyval list" where
  "py_iter (VList xs) = Inr xs"
| "py_iter (VStr s) = Inr (map (\<lambda>c. VStr [c]) s)"
| "py_iter (VDict d) = Inr (map (\<lambda>kv. VStr (fst kv)) d)"
| "py_iter v = Inl TypeError"

fun join :: "string \<Rightarrow> string list \<Rightarrow> string" where
  "join sep [] = []"
| "join sep [x] = x"
| "join sep (x # y # ys) = x @ sep @ join sep (y # ys)"

definition generate_research_notes ::
  "(pyval \<Rightarrow> string) \<Rightarrow> pydict \<Rightarrow> string \<Rightarrow> py_error + string" where
  "generate_research_notes render item item_type =
     (let name = py_str render (dict_get item ''name'' (VStr ''Unknown''));
          notes =
            [''Item '' @ [CHR 0x27] @ name @ [CHR 0x27] @ '' requires manual research.'',
             [CHR 0x0A] @ ''Suggested searches:'',
             ''  - '' @ [CHR 0x22] @ name @ '' what is'' @ [CHR 0x22],
             ''  - '' @ [CHR 0x22] @ name @ '' safe to disable'' @ [CHR 0x22],
             ''  - '' @ [CHR 0x22] @ name @ '' Windows 11'' @ [CHR 0x22]];
          path = py_or (py_or (dict_get0 item ''exe_path'') (dict_get0 item ''path''))
                   (dict_get0 item ''command'');
          notes = (if truthy path
                   then notes @ [[CHR 0x0A] @ ''File location: '' @ py_str render path]
                   else notes);
          reasons = dict_get item ''suspect_reasons'' (VList [])
      in if truthy reasons then
           (case py_iter reasons of
              Inl e \<Rightarrow> Inl e
            | Inr rs \<Rightarrow>
                Inr (join [CHR 0x0A]
                       (notes @ [[CHR 0x0A] @ ''Flagged because:''] @
                        map (\<lambda>reason. ''  - '' @ py_str render reason) rs)))
         else Inr (join [CHR 0x0A] notes))"

text \<open>\<^verbatim>\<open>_extract_item_details\<close>.\<close>

definition extract_item_details :: "pydict \<Rightarrow> string \<Rightarrow> pydict" where
  "extract_item_details item item_type =
     [(''type'', VStr item_type)] @
     (if item_type = ''process'' then
        [(''pid'', dict_get0 item ''pid''), (''exe_path'', dict_get0 item ''exe_path''),
         (''memory_mb'', dict_get0 item ''memory_mb''),
         (''cpu_percent'', dict_get0 item ''cpu_percent''),
         (''parent'', dict_get0 item ''parent_name'')]
      else if item_type = ''service'' then
        [(''display_name'', dict_get0 item ''display_name''), (''state'', dict_get0 item ''state''),
         (''start_mode'', dict_get0 item ''start_mode''), (''path'', dict_get0 item ''path''),
         (''account'', dict_get0 item ''account'')]
      else if item_type = ''startup'' then
        [(''command'', dict_get0 item ''command''), (''source'', dict_get0 item ''source''),
         (''location'', dict_get0 item ''location''), (''enabled'', dict_get0 item ''enabled'')]
      else if item_type = ''task'' then
        [(''path'', dict_get0 item ''path''), (''state'', dict_get0 item ''state''),
         (''triggers'', dict_get0 item ''triggers''), (''actions'', dict_get0 item ''actions''),
         (''runs_at_logon'', dict_get0 item ''runs_at_logon'')]
      else [])"

text \<open>
  \<^verbatim>\<open>research_item\<close>. The first two lines,
  \<^verbatim>\<open>known_info = item.get("known_info") or self._lookup_known(name)\<close>, are
  \<open>resolve_known_info\<close>. The keys that \<^verbatim>\<open>research.update\<close> and the last assignment
  add are new, so each lands at the end. \<open>now\<close> is the clock reading
  \<^verbatim>\<open>datetime.now().isoformat()\<close>.
\<close>

definition resolve_known_info :: "(string \<times> pydict) list \<Rightarrow> pydict \<Rightarrow> py_error + pyval" where
  "resolve_known_info kb item =
     (let name = dict_get item ''name'' (VStr ''Unknown'');
          attached = dict_get0 item ''known_info''
      in if truthy attached then Inr attached else lookup_known kb name)"

definition research_item ::
  "(pyval \<Rightarrow> string) \<Rightarrow> string \<Rightarrow> (string \<times> pydict) list \<Rightarrow> pydict \<Rightarrow> string \<Rightarrow> py_error + pydict" where
  "research_item render now kb item item_type =
     (case resolve_known_info kb item of
        Inl e \<Rightarrow> Inl e
      | Inr known_info \<Rightarrow>
          (let research =
                 [(''name'', dict_get item ''name'' (VStr ''Unknown'')),
                  (''type'', VStr item_type),
                  (''researched_at'', VStr now),
                  (''suspect_reasons'', dict_get item ''suspect_reasons'' (VList []))]
           in if truthy known_info then
                (case known_info of
                   VDict info \<Rightarrow>
                     Inr (research @
                          [(''source'', VStr ''known_processes_database''),
                           (''category'', dict_get0 info ''category''),
                           (''publisher'', dict_get0 info ''publisher''),
                           (''purpose'', dict_get0 info ''purpose''),
                           (''recommendation'', dict_get0 info ''recommendation''),
                           (''safety_rating'', dict_get0 info ''safety_rating''),
                           (''notes'', dict_get0 info ''notes''),
                           (''requires_further_research'', VBool False),
                           (''item_details'', VDict (extract_item_details item item_type))])
                 | _ \<Rightarrow> Inl AttributeError)
              else
                (case guess_category render item of
                   Inl e \<Rightarrow> Inl e
                 | Inr category \<Rightarrow>
                     (case generate_research_notes render item item_type of
                        Inl e \<Rightarrow> Inl e
                      | Inr notes \<Rightarrow>
                          Inr (research @
                               [(''source'', VStr ''needs_research''),
                                (''category'', VStr category),
                                (''publisher'', extract_publisher render item),
                                (''purpose'', VStr ''Unknown - requires research''),
                                (''recommendation'', VStr ''REVIEW''),
                                (''safety_rating'', VStr ''UNKNOWN''),
                                (''notes'', VStr notes),
                                (''requires_further_research'', VBool True),
                                (''item_details'',
                                 VDict (extract_item_details item item_type))])))))"

text \<open>\<^verbatim>\<open>research_all_suspects\<close>: one loop per kind over the records marked suspect.\<close>

fun research_suspects ::
  "(pyval \<Rightarrow> string) \<Rightarrow> string \<Rightarrow> (string \<times> pydict) list \<Rightarrow> string \<Rightarrow> pydict list \<Rightarrow>
     py_error + pydict list" where
  "research_suspects render now kb item_type [] = Inr []"
| "research_suspects render now kb item_type (item # items) =
     (if truthy (dict_get0 item ''is_suspect'') then
        (case research_item render now kb item item_type of
           Inl e \<Rightarrow> Inl e
         | Inr research \<Rightarrow>
             (case research_suspects render now kb item_type items of
                Inl e \<Rightarrow> Inl e
              | Inr rest \<Rightarrow> Inr (research # rest)))
      else research_suspects render now kb item_type items)"

definition research_all_suspects ::
  "(pyval \<Rightarrow> string) \<Rightarrow> string \<Rightarrow> (string \<times> pydict) list \<Rightarrow>
     pydict list \<Rightarrow> pydict list \<Rightarrow> pydict list \<Rightarrow> pydict list \<Rightarrow>
     py_error + (string \<times> pydict list) list" where
  "research_all_suspects render now kb processes services startup_items tasks =
     (case research_suspects render now kb ''process'' processes of
        Inl e \<Rightarrow> Inl e
      | Inr ps \<Rightarrow>
     (case research_suspects render now kb ''service'' services of
        Inl e \<Rightarrow> Inl e
      | Inr ss \<Rightarrow>
     (case research_suspects render now kb ''startup'' startup_items of
        Inl e \<Rightarrow> Inl e
      | Inr us \<Rightarrow>
     (case research_suspects render now kb ''task'' tasks of
        Inl e \<Rightarrow> Inl e
      | Inr ts \<Rightarrow>
          Inr [(''processes'', ps), (''services'', ss), (''startup_items'', us),
               (''tasks'', ts)]))))"

text \<open>
  \<^verbatim>\<open>generate_recommendations\<close>. \<^verbatim>\<open>recommendations[rec]\<close> raises KeyError when
  \<^verbatim>\<open>rec\<close> is none of the four keys and TypeError when it is unhashable; it is
  evaluated before the entry, whose \<^verbatim>\<open>item["name"]\<close> raises KeyError on a result
  without a name.
\<close>

definition empty_recommendations :: "(string \<times> pydict list) list" where
  "empty_recommendations = [(''REMOVE'', []), (''DISABLE'', []), (''KEEP'', []), (''REVIEW'', [])]"

definition recommendation_entry :: "string \<Rightarrow> pyval \<Rightarrow> pydict \<Rightarrow> pydict" where
  "recommendation_entry item_type name item =
     [(''name'', name), (''type'', VStr item_type),
      (''category'', dict_get0 item ''category''),
      (''purpose'', dict_get0 item ''purpose''),
      (''safety_rating'', dict_get0 item ''safety_rating'')]"

definition add_recommendation ::
  "string \<Rightarrow> pydict \<Rightarrow> (string \<times> pydict list) list \<Rightarrow> py_error + (string \<times> pydict list) list" where
  "add_recommendation item_type item recommendations =
     (case dict_get item ''recommendation'' (VStr ''REVIEW'') of
        VList xs \<Rightarrow> Inl TypeError
      | VDict d \<Rightarrow> Inl TypeError
      | VStr rec \<Rightarrow>
          (case map_of recommendations rec of
             None \<Rightarrow> Inl (KeyError (VStr rec))
           | Some bucket \<Rightarrow>
               (case map_of item ''name'' of
                  None \<Rightarrow> Inl (KeyError (VStr ''name''))
                | Some name \<Rightarrow>
                    Inr (AList.update rec (bucket @ [recommendation_entry item_type name item])
                           recommendations)))
      | v \<Rightarrow> Inl (KeyError v))"

fun add_items ::
  "string \<Rightarrow> pydict list \<Rightarrow> (string \<times> pydict list) list \<Rightarrow> py_error + (string \<times> pydict list) list" where
  "add_items item_type [] recommendations = Inr recommendations"
| "add_items item_type (item # items) recommendations =
     (case add_recommendation item_type item recommendations of
        Inl e \<Rightarrow> Inl e
      | Inr recommendations' \<Rightarrow> add_items item_type items recommendations')"

fun add_kinds ::
  "(string \<times> pydict list) list \<Rightarrow> (string \<times> pydict list) list \<Rightarrow>
     py_error + (string \<times> pydict list) list" where
  "add_kinds [] recommendations = Inr recommendations"
| "add_kinds ((item_type, items) # results) recommendations =
     (case add_items item_type items recommendations of
        Inl e \<Rightarrow> Inl e
      | Inr recommendations' \<Rightarrow> add_kinds results recommendations')"

definition generate_recommendations ::
  "(string \<times> pydict list) list \<Rightarrow> py_error + (string \<times> pydict list) list" where
  "generate_recommendations results = add_kinds results empty_recommendations"

section \<open>Audit logger (src/utils/logger.py)\<close>

text \<open>
  The logger's state: its attributes, and the contents of the three files it writes
  (the execution log, the rollback script, the YAML change log). A text file is the list
  of the strings written to it, in order; opening with mode \<^verbatim>\<open>'w'\<close> replaces the list,
  mode \<^verbatim>\<open>'a'\<close> extends it. A file that has not been written is None. Failing file
  operations are outside the model. Every clock reading
  (\<^verbatim>\<open>datetime.now().isoformat()\<close>) is an argument of the call that takes it.
\<close>

record change =
  timestamp :: string
  action :: string
  target :: string
  target_type :: string
  before_state :: pyval
  after_state :: pyval
  rollback_command :: string
  success :: bool
  error :: "string option"

record summary =
  summary_session_id :: string
  total_changes :: nat
  successful :: nat
  failed :: nat
  by_type :: "(string \<times> nat) list"
  summary_log_file :: string
  summary_rollback_file :: string

record audit_logger =
  session_id :: string
  log_file :: string
  rollback_file :: string
  changes :: "change list"
  rollback_commands :: "string list"
  log_contents :: "string list"
  rollback_contents :: "string list option"
  yaml_contents :: "(summary \<times> change list) option"

definition nl :: string where
  "nl = [CHR 0x0A]"

text \<open>\<^verbatim>\<open>__init__\<close> with \<^verbatim>\<open>_write_header\<close>.\<close>

definition write_header :: "string \<Rightarrow> audit_logger \<Rightarrow> audit_logger" where
  "write_header now L =
     L\<lparr>log_contents :=
         [''# Windows Optimization Toolkit - Audit Log'' @ nl,
          ''# Session: '' @ session_id L @ nl,
          ''# Started: '' @ now @ nl,
          ''# '' @ replicate 70 (CHR ''='') @ nl @ nl]\<rparr>"

definition init_logger :: "string \<Rightarrow> string \<Rightarrow> string \<Rightarrow> audit_logger" where
  "init_logger output_dir sid now =
     write_header now
       \<lparr>session_id = sid,
        log_file = output_dir @ ''/'' @ sid @ ''_execution.log'',
        rollback_file = output_dir @ ''/'' @ sid @ ''_rollback.ps1'',
        changes = [],
        rollback_commands = [],
        log_contents = [],
        rollback_contents = None,
        yaml_contents = None\<rparr>"

text \<open>\<^verbatim>\<open>log_change\<close>.\<close>

definition log_change ::
  "(pyval \<Rightarrow> string) \<Rightarrow> string \<Rightarrow> string \<Rightarrow> string \<Rightarrow> string \<Rightarrow> pyval \<Rightarrow> pyval \<Rightarrow> string \<Rightarrow>
     bool \<Rightarrow> string option \<Rightarrow> audit_logger \<Rightarrow> audit_logger" where
  "log_change render now act tgt ttype before after rollback ok err L =
     (let entry = \<lparr>timestamp = now, action = act, target = tgt, target_type = ttype,
                   before_state = before, after_state = after, rollback_command = rollback,
                   success = ok, error = err\<rparr>;
          L = L\<lparr>changes := changes L @ [entry]\<rparr>;
          status = (if ok then ''SUCCESS'' else ''FAILED'');
          L = L\<lparr>log_contents := log_contents L @
                 [''['' @ now @ ''] '' @ status @ '': '' @ act @ '' - '' @ tgt @ nl,
                  ''  Type: '' @ ttype @ nl,
                  ''  Before: '' @ py_str render before @ nl,
                  ''  After: '' @ py_str render after @ nl] @
                 (case err of
                    None \<Rightarrow> []
                  | Some msg \<Rightarrow> if msg \<noteq> [] then [''  Error: '' @ msg @ nl] else []) @
                 [''  Rollback: '' @ rollback @ nl, nl]\<rparr>
      in if ok \<and> rollback \<noteq> []
         then L\<lparr>rollback_commands := rollback_commands L @
                  [''# Rollback: '' @ act @ '' - '' @ tgt, rollback, '''']\<rparr>
         else L)"

text \<open>\<^verbatim>\<open>log_dry_run\<close> and \<^verbatim>\<open>log_message\<close>.\<close>

definition log_dry_run ::
  "(pyval \<Rightarrow> string) \<Rightarrow> string \<Rightarrow> string \<Rightarrow> string \<Rightarrow> string \<Rightarrow> pyval \<Rightarrow> pyval \<Rightarrow>
     audit_logger \<Rightarrow> audit_logger" where
  "log_dry_run render now act tgt ttype current planned L =
     L\<lparr>log_contents := log_contents L @
         [''['' @ now @ ''] DRY-RUN: '' @ act @ '' - '' @ tgt @ nl,
          ''  Type: '' @ ttype @ nl,
          ''  Current: '' @ py_str render current @ nl,
          ''  Planned: '' @ py_str render planned @ nl,
          nl]\<rparr>"

definition log_message :: "string \<Rightarrow> string \<Rightarrow> string \<Rightarrow> audit_logger \<Rightarrow> audit_logger" where
  "log_message now message level L =
     L\<lparr>log_contents := log_contents L @ [''['' @ now @ ''] '' @ level @ '': '' @ message @ nl]\<rparr>"

text \<open>
  \<^verbatim>\<open>save_rollback_script\<close>: a fixed preamble, then the loop
  \<^verbatim>\<open>for cmd in reversed(self.rollback_commands): f.write(f"{cmd}\n")\<close>, then the closing
  line. \<open>rollback_actions\<close> is the sequence the loop walks: the emitted rollback list.
\<close>

definition script_preamble :: "string \<Rightarrow> string \<Rightarrow> string list" where
  "script_preamble sid now =
     [''# Windows Optimization Toolkit - Rollback Script'' @ nl,
      ''# Session: '' @ sid @ nl,
      ''# Generated: '' @ now @ nl,
      ''#'' @ nl,
      ''# WARNING: This script reverses ALL changes from the session.'' @ nl,
      ''# Run as Administrator.'' @ nl,
      ''#'' @ nl,
      ''# Usage: .'' @ [CHR 0x5C] @ sid @ ''_rollback.ps1'' @ nl,
      nl,
      ''# Confirm before proceeding'' @ nl,
      ''$confirm = Read-Host '' @ [CHR 0x22] @ ''This will rollback all changes from session '' @
        sid @ ''. Continue? (y/N)'' @ [CHR 0x22] @ nl,
      ''if ($confirm -ne '' @ [CHR 0x22] @ ''y'' @ [CHR 0x22] @ '' -and $confirm -ne '' @
        [CHR 0x22] @ ''Y'' @ [CHR 0x22] @ '') {'' @ nl,
      ''    Write-Host '' @ [CHR 0x22] @ ''Rollback cancelled.'' @ [CHR 0x22] @ nl,
      ''    exit'' @ nl,
      ''}'' @ nl @ nl,
      ''Write-Host '' @ [CHR 0x22] @ ''Starting rollback...'' @ [CHR 0x22] @ nl @ nl]"

definition rollback_actions :: "audit_logger \<Rightarrow> string list" where
  "rollback_actions L = rev (rollback_commands L)"

definition save_rollback_script :: "string \<Rightarrow> audit_logger \<Rightarrow> audit_logger" where
  "save_rollback_script now L =
     L\<lparr>rollback_contents :=
         Some (script_preamble (session_id L) now @
               map (\<lambda>cmd. cmd @ nl) (rollback_actions L) @
               [nl @ ''Write-Host '' @ [CHR 0x22] @ ''Rollback complete.'' @ [CHR 0x22] @ nl])\<rparr>"

text \<open>\<^verbatim>\<open>get_summary\<close>.\<close>

fun count_by_type :: "change list \<Rightarrow> (string \<times> nat) list \<Rightarrow> (string \<times> nat) list" where
  "count_by_type [] counts = counts"
| "count_by_type (c # cs) counts =
     count_by_type cs
       (AList.update (target_type c)
          ((case map_of counts (target_type c) of None \<Rightarrow> 0 | Some n \<Rightarrow> n) + 1) counts)"

definition get_summary :: "audit_logger \<Rightarrow> summary" where
  "get_summary L =
     (let successful_changes = filter (\<lambda>c. success c) (changes L);
          failed_changes = filter (\<lambda>c. \<not> success c) (changes L)
      in \<lparr>summary_session_id = session_id L,
          total_changes = length (changes L),
          successful = length successful_changes,
          failed = length failed_changes,
          by_type = count_by_type successful_changes [],
          summary_log_file = log_file L,
          summary_rollback_file = rollback_file L\<rparr>)"

text \<open>
  \<^verbatim>\<open>finalize\<close>: writes the rollback script, appends the closing block to the execution
  log, writes the YAML change log, returns the summary. The numbers of the closing block
  are rendered by \<^verbatim>\<open>str\<close>.
\<close>

definition session_footer :: "(pyval \<Rightarrow> string) \<Rightarrow> string \<Rightarrow> summary \<Rightarrow> string list" where
  "session_footer render now s =
     [nl @ ''# '' @ replicate 70 (CHR ''='') @ nl,
      ''# Session Complete: '' @ now @ nl,
      ''# Total changes: '' @ py_str render (VInt (int (total_changes s))) @ nl,
      ''# Successful: '' @ py_str render (VInt (int (successful s))) @ nl,
      ''# Failed: '' @ py_str render (VInt (int (failed s))) @ nl,
      ''# Rollback script: '' @ summary_rollback_file s @ nl]"

definition finalize ::
  "(pyval \<Rightarrow> string) \<Rightarrow> string \<Rightarrow> string \<Rightarrow> audit_logger \<Rightarrow> summary \<times> audit_logger" where
  "finalize render now_script now_footer L =
     (let L = save_rollback_script now_script L;
          s = get_summary L;
          L = L\<lparr>log_contents := log_contents L @ session_footer render now_footer s\<rparr>;
          L = L\<lparr>yaml_contents := Some (s, changes L)\<rparr>
      in (s, L))"

text \<open>A session: the calls a client makes on the journal, in order.\<close>

datatype journal_call =
    LogChange string string string string pyval pyval string bool "string option"
  | LogDryRun string string string string pyval pyval
  | LogMessage string string string

fun run_call :: "(pyval \<Rightarrow> string) \<Rightarrow> audit_logger \<Rightarrow> journal_call \<Rightarrow> audit_logger" where
  "run_call render L (LogChange now act tgt ttype before after rollback ok err) =
     log_change render now act tgt ttype before after rollback ok err L"
| "run_call render L (LogDryRun now act tgt ttype current planned) =
     log_dry_run render now act tgt ttype current planned L"
| "run_call render L (LogMessage now message level) = log_message now message level L"

definition run_calls :: "(pyval \<Rightarrow> string) \<Rightarrow> audit_logger \<Rightarrow> journal_call list \<Rightarrow> audit_logger" where
  "run_calls render L calls = foldl (run_call render) L calls"

section \<open>Notions used by the statements\<close>

text \<open>
  The record as a loop body leaves it when it runs to its end: \<^verbatim>\<open>is_suspect\<close>,
  \<^verbatim>\<open>suspect_reasons\<close> and \<^verbatim>\<open>known_info\<close> assigned in this order.
\<close>

definition marked :: "pydict \<Rightarrow> string list \<Rightarrow> pyval \<Rightarrow> pydict" where
  "marked r reasons info =
     AList.update ''known_info'' info
       (AList.update ''suspect_reasons'' (VList (map VStr reasons))
          (AList.update ''is_suspect'' (VBool (reasons \<noteq> [])) r))"

text \<open>A record whose \<^verbatim>\<open>is_suspect\<close> flag agrees with its list of reasons.\<close>

definition suspect_consistent :: "pydict \<Rightarrow> bool" where
  "suspect_consistent r =
     (case (map_of r ''is_suspect'', map_of r ''suspect_reasons'') of
        (Some (VBool b), Some (VList rs)) \<Rightarrow> b = (rs \<noteq> [])
      | _ \<Rightarrow> False)"

text \<open>The keys a filter operation assigns.\<close>

definition filter_keys :: "string set" where
  "filter_keys = {''is_suspect'', ''suspect_reasons'', ''known_info''}"

text \<open>
  The reason contributed by the rules: that of the first rule that matches, if any; and
  what identifies a reason as a pattern reason.
\<close>

definition pattern_reason :: "compiled_pattern list \<Rightarrow> string \<Rightarrow> string list" where
  "pattern_reason ps full_text =
     (case find (\<lambda>p. search p full_text) ps of
        None \<Rightarrow> []
      | Some p \<Rightarrow> [''Matches bloatware pattern: '' @ pattern p])"

definition is_pattern_reason :: "string \<Rightarrow> bool" where
  "is_pattern_reason s = prefix ''Matches bloatware pattern: '' s"

text \<open>
  The first Knowledge Base entry, in iteration order, whose key equals the name up to
  case; and the first whose key contains the name or is contained in it, up to case.
\<close>

definition first_ci :: "string \<Rightarrow> (string \<times> pydict) list \<Rightarrow> (string \<times> pydict) option" where
  "first_ci name kb = find (\<lambda>(k, info). lower k = lower name) kb"

definition first_partial :: "string \<Rightarrow> (string \<times> pydict) list \<Rightarrow> (string \<times> pydict) option" where
  "first_partial name kb =
     find (\<lambda>(k, info). sublist (lower k) (lower name) \<or> sublist (lower name) (lower k)) kb"

text \<open>
  The keyword buckets of the category guess in their fixed order, and the first bucket one
  of whose keywords occurs in the name or in the path.
\<close>

definition category_buckets :: "(string \<times> string list) list" where
  "category_buckets =
     [(''updater'', [''update'', ''updater'']),
      (''rgb_software'', [''rgb'', ''chroma'', ''lighting'', ''icue'']),
      (''ai_feature'', [''copilot'', ''recall'', ''cortana'', ''ai'']),
      (''telemetry'', [''telemetry'', ''diag'', ''feedback'']),
      (''gaming'', [''game'', ''steam'', ''epic'', ''xbox'']),
      (''driver'', [''driver'', ''drv'']),
      (''security'', [''security'', ''antivirus'', ''defender''])]"

definition first_bucket :: "string \<Rightarrow> string \<Rightarrow> string" where
  "first_bucket name path =
     (case find (\<lambda>(category, keywords). \<exists>x\<in>set keywords. sublist x name \<or> sublist x path)
             category_buckets of
        Some (category, keywords) \<Rightarrow> category
      | None \<Rightarrow> ''unknown'')"

text \<open>
  Aggregation: a result the four buckets can take, the results of all kinds in traversal
  order with their kind, and the bucket a recommendation selects from them.
\<close>

definition valid_result :: "pydict \<Rightarrow> bool" where
  "valid_result item =
     (dict_get item ''recommendation'' (VStr ''REVIEW'') \<in>
        {VStr ''REMOVE'', VStr ''DISABLE'', VStr ''KEEP'', VStr ''REVIEW''} \<and>
      map_of item ''name'' \<noteq> None)"

definition tagged :: "(string \<times> pydict list) list \<Rightarrow> (string \<times> pydict) list" where
  "tagged results = concat (map (\<lambda>(item_type, items). map (Pair item_type) items) results)"

definition bucket :: "string \<Rightarrow> (string \<times> pydict) list \<Rightarrow> pydict list" where
  "bucket rec ts =
     map (\<lambda>(item_type, item). recommendation_entry item_type (the (map_of item ''name'')) item)
       (filter (\<lambda>(item_type, item). dict_get item ''recommendation'' (VStr ''REVIEW'') = VStr rec)
          ts)"

definition buckets ::
  "pydict list \<Rightarrow> pydict list \<Rightarrow> pydict list \<Rightarrow> pydict list \<Rightarrow> (string \<times> pydict list) list" where
  "buckets a b c d = [(''REMOVE'', a), (''DISABLE'', b), (''KEEP'', c), (''REVIEW'', d)]"

text \<open>
  What a journal call contributes to the rollback list: action, target and command of a
  successful change with a non-empty rollback command, nothing otherwise; and the label
  line written for it.
\<close>

fun recorded :: "journal_call \<Rightarrow> (string \<times> string \<times> string) list" where
  "recorded (LogChange now act tgt ttype before after rollback ok err) =
     (if ok \<and> rollback \<noteq> [] then [(act, tgt, rollback)] else [])"
| "recorded (LogDryRun now act tgt ttype current planned) = []"
| "recorded (LogMessage now message level) = []"

definition label :: "string \<Rightarrow> string \<Rightarrow> string" where
  "label act tgt = ''# Rollback: '' @ act @ '' - '' @ tgt"

section \<open>A concrete configuration\<close>

text \<open>
  Concrete values for the parameters, used to run the model: a renderer that prints
  integers in decimal, booleans by name and anything else as \<^verbatim>\<open>None\<close>, and a stand-in for \<^verbatim>\<open>re.compile\<close> that
  reads a pattern \<^verbatim>\<open>(?i)word\<close> as the case-insensitive search for \<^verbatim>\<open>word\<close>.
\<close>

fun digits :: "nat \<Rightarrow> string" where
  "digits n = (if n < 10 then [char_of (48 + n)] else digits (n div 10) @ [char_of (48 + n mod 10)])"

fun example_render :: "pyval \<Rightarrow> string" where
  "example_render (VInt i) = (if i < 0 then ''-'' @ digits (nat (- i)) else digits (nat i))"
| "example_render (VBool b) = (if b then ''True'' else ''False'')"
| "example_render v = ''None''"

definition example_compile :: "string \<Rightarrow> (string \<Rightarrow> bool) option" where
  "example_compile p = Some (\<lambda>text. sublist (drop 4 p) (lower text))"

definition example_known :: "(string \<times> pydict) list" where
  "example_known =
     [(''Explorer.EXE'', [(''category'', VStr ''system''), (''safety_rating'', VStr ''CRITICAL'')]),
      (''Razer'', [(''category'', VStr ''rgb_software''), (''recommendation'', VStr ''REMOVE'')])]"

definition example_filter :: suspect_filter where
  "example_filter =
     init_filter example_compile
       \<lparr>bloatware_patterns = [], high_memory_threshold_percent = None,
        high_cpu_threshold_percent = None, flag_non_microsoft_setting = None\<rparr>
       example_known
       \<lparr>keep_processes = [''System''], keep_services = []\<rparr>"

text \<open>A Knowledge Base whose entry has no recommendation field.\<close>

definition example_unrated_known :: "(string \<times> pydict) list" where
  "example_unrated_known =
     [(''Foo Updater'', [(''category'', VStr ''updater''), (''publisher'', VStr ''Foo Inc.'')])]"

text \<open>
  A session: a successful change, a failed one, a dry run and a second successful change;
  and the journal after it.
\<close>

definition example_session :: "journal_call list" where
  "example_session =
     [LogChange ''t1'' ''disable_service'' ''Foo'' ''service'' (VStr ''Automatic'') (VStr ''Disabled'')
        ''Set-Service Foo -StartupType Automatic'' True None,
      LogChange ''t2'' ''disable_service'' ''Baz'' ''service'' (VStr ''Automatic'') (VStr ''Automatic'')
        ''Set-Service Baz -StartupType Automatic'' False (Some ''access denied''),
      LogDryRun ''t3'' ''disable_service'' ''Qux'' ''service'' (VStr ''Automatic'') (VStr ''Disabled''),
      LogChange ''t4'' ''disable_service'' ''Bar'' ''service'' (VStr ''Automatic'') (VStr ''Disabled'')
        ''Set-Service Bar -StartupType Automatic'' True None]"

definition example_journal :: audit_logger where
  "example_journal =
     run_calls example_render (init_logger ''data/audit_logs'' ''s1'' ''t0'') example_session"

section \<open>Properties of the suspect filter\<close>

lemma dict_get_update_other:
  "k \<noteq> k' \<Longrightarrow> dict_get (AList.update k v d) k' dflt = dict_get d k' dflt"
  by (simp add: dict_get_def update_conv')

lemma reasons_process_name:
  "get_suspect_reasons_process render f r = Inr rs \<Longrightarrow> \<exists>n. dict_get r ''name'' (VStr []) = VStr n"
  by (cases "dict_get r ''name'' (VStr [])") (simp_all add: get_suspect_reasons_process_def)

lemma reasons_service_name:
  "get_suspect_reasons_service render f r = Inr rs \<Longrightarrow> \<exists>n. dict_get r ''name'' (VStr []) = VStr n"
  by (cases "dict_get r ''name'' (VStr [])") (simp_all add: get_suspect_reasons_service_def)

lemma reasons_startup_name:
  "get_suspect_reasons_startup render f r = Inr rs \<Longrightarrow> \<exists>n. dict_get r ''name'' (VStr []) = VStr n"
  by (cases "dict_get r ''name'' (VStr [])") (simp_all add: get_suspect_reasons_startup_def)

lemma reasons_task_name:
  "get_suspect_reasons_task render f r = Inr rs \<Longrightarrow> \<exists>n. dict_get r ''name'' (VStr []) = VStr n"
  by (cases "dict_get r ''name'' (VStr [])") (simp_all add: get_suspect_reasons_task_def)

lemma get_known_info_str: "\<exists>info. get_known_info f (VStr n) = Inr info"
  by (simp split: option.splits)

lemma mark_item_str:
  assumes "get_reasons r = Inr reasons" and "dict_get r ''name'' (VStr []) = VStr n"
  shows "\<exists>info. get_known_info f (VStr n) = Inr info \<and>
           mark_item get_reasons f r = (marked r reasons info, None)"
proof -
  obtain info where i: "get_known_info f (VStr n) = Inr info"
    using get_known_info_str by blast
  have "mark_item get_reasons f r = (marked r reasons info, None)"
    using assms i by (simp add: mark_item_def marked_def dict_get_update_other)
  with i show ?thesis by blast
qed

lemma mark_item_cases:
  "mark_item g f r = (r', err) \<Longrightarrow>
     (\<exists>e. g r = Inl e \<and> r' = r \<and> err = Some e) \<or>
     (\<exists>reasons info. g r = Inr reasons \<and> err = None \<and> r' = marked r reasons info) \<or>
     (\<exists>reasons e. g r = Inr reasons \<and> err = Some e \<and>
        r' = AList.update ''suspect_reasons'' (VList (map VStr reasons))
               (AList.update ''is_suspect'' (VBool (reasons \<noteq> [])) r))"
  by (auto simp: mark_item_def marked_def Let_def split: sum.splits)

lemma filter_loop_length: "filter_loop body items = (items', err) \<Longrightarrow> length items' = length items"
  by (induction items arbitrary: items' err) (auto split: prod.splits option.splits)

lemma filter_loop_nth:
  "filter_loop body items = (items', err) \<Longrightarrow> i < length items \<Longrightarrow>
     items' ! i = items ! i \<or> (\<exists>e. body (items ! i) = (items' ! i, e))"
proof (induction items arbitrary: items' err i)
  case Nil
  then show ?case by simp
next
  case (Cons a items)
  show ?case
  proof (cases i)
    case 0
    with Cons.prems show ?thesis
      by (auto split: prod.splits option.splits)
  next
    case (Suc j)
    obtain a' ea where a: "body a = (a', ea)" by (cases "body a")
    show ?thesis
    proof (cases ea)
      case None
      obtain rest er where r: "filter_loop body items = (rest, er)"
        by (cases "filter_loop body items")
      from Cons.prems a None r have "items' = a' # rest" by simp
      moreover from Cons.IH [OF r, of j] Cons.prems Suc
      have "rest ! j = items ! j \<or> (\<exists>e. body (items ! j) = (rest ! j, e))" by simp
      ultimately show ?thesis using Suc by simp
    next
      case (Some e)
      with Cons.prems a have "items' = a' # items" by simp
      then show ?thesis using Suc by simp
    qed
  qed
qed

lemma filter_loop_ok_nth:
  "filter_loop body items = (items', None) \<Longrightarrow> i < length items \<Longrightarrow>
     body (items ! i) = (items' ! i, None)"
proof (induction items arbitrary: items' i)
  case Nil
  then show ?case by simp
next
  case (Cons a items)
  then show ?case
    by (cases i) (auto split: prod.splits option.splits)
qed

lemma map_of_marked:
  "map_of (marked r reasons info) =
     (map_of r)(''is_suspect'' \<mapsto> VBool (reasons \<noteq> []),
                ''suspect_reasons'' \<mapsto> VList (map VStr reasons),
                ''known_info'' \<mapsto> info)"
  by (simp add: marked_def update_conv')

lemma critical_reasons:
  assumes "dict_get r ''name'' (VStr []) = VStr n" and "lower n \<in> critical_keep f"
  shows "get_suspect_reasons_process render f r = Inr []"
    and "get_suspect_reasons_service render f r = Inr []"
    and "get_suspect_reasons_startup render f r = Inr []"
    and "get_suspect_reasons_task render f r = Inr []"
  using assms
  by (simp_all add: get_suspect_reasons_process_def get_suspect_reasons_service_def
        get_suspect_reasons_startup_def get_suspect_reasons_task_def)

text \<open>
  Claim C1. A record of any kind whose lower-cased name is in the Critical-Keep Set gets
  the empty reason list from each of the four reason functions, whatever its other fields
  hold, and the loop body of each filter marks it \<^verbatim>\<open>is_suspect = False\<close> with
  \<^verbatim>\<open>suspect_reasons = []\<close> without raising.
\<close>

theorem C1_critical_keep_never_suspect:
  assumes "dict_get r ''name'' (VStr []) = VStr n"
      and "lower n \<in> critical_keep f"
      and "g \<in> {get_suspect_reasons_process render f, get_suspect_reasons_service render f,
                get_suspect_reasons_startup render f, get_suspect_reasons_task render f}"
  shows "g r = Inr [] \<and>
         snd (mark_item g f r) = None \<and>
         map_of (fst (mark_item g f r)) ''is_suspect'' = Some (VBool False) \<and>
         map_of (fst (mark_item g f r)) ''suspect_reasons'' = Some (VList [])"
proof -
  have g: "g r = Inr []"
    using assms critical_reasons [OF assms(1,2)] by auto
  from mark_item_str [of g r "[]" n f, OF g assms(1)] obtain info
    where "mark_item g f r = (marked r [] info, None)" by blast
  then show ?thesis using g by (simp add: map_of_marked)
qed

theorem C1_witness:
  "get_suspect_reasons_process example_render example_filter
     [(''name'', VStr ''explorer.exe''), (''exe_path'', VStr ''C:/razer/chroma.exe''),
      (''memory_percent'', VInt 99), (''cpu_percent'', VInt 99),
      (''signature'', VStr ''Razer Inc.'')] = Inr []"
proof -
  let ?r = "[(''name'', VStr ''explorer.exe''), (''exe_path'', VStr ''C:/razer/chroma.exe''),
      (''memory_percent'', VInt 99), (''cpu_percent'', VInt 99),
      (''signature'', VStr ''Razer Inc.'')]"
  have 1: "dict_get ?r ''name'' (VStr []) = VStr ''explorer.exe''"
    by (simp add: dict_get_def)
  have 2: "lower ''explorer.exe'' \<in> critical_keep example_filter"
    by code_simp
  show ?thesis
    using C1_critical_keep_never_suspect [OF 1 2, of "get_suspect_reasons_process example_render example_filter" example_render]
    by simp
qed

lemma suspect_consistent_marked: "suspect_consistent (marked r reasons info)"
  by (simp add: suspect_consistent_def map_of_marked)

lemma suspect_consistent_partial:
  "suspect_consistent
     (AList.update ''suspect_reasons'' (VList (map VStr reasons))
        (AList.update ''is_suspect'' (VBool (reasons \<noteq> [])) r))"
  by (simp add: suspect_consistent_def update_conv')

lemma mark_item_consistent:
  "mark_item g f r = (r', err) \<Longrightarrow> r' = r \<or> suspect_consistent r'"
  using mark_item_cases [of g f r r' err]
  by (auto simp: suspect_consistent_marked suspect_consistent_partial)

lemma mark_item_ok_consistent:
  "mark_item g f r = (r', None) \<Longrightarrow> suspect_consistent r'"
  using mark_item_cases [of g f r r' None]
  by (auto simp: suspect_consistent_marked)

text \<open>
  Claim C3. After any of the four filter operations, every record the operation has
  processed has \<^verbatim>\<open>is_suspect\<close> true exactly when its \<^verbatim>\<open>suspect_reasons\<close> list is
  non-empty: each record of the list is either still the input record (the loop was ended
  by an exception before reaching it) or consistent, and all are consistent when the
  operation returns.
\<close>

theorem C3_is_suspect_iff_reasons:
  assumes "F \<in> {filter_processes render f, filter_services render f,
                filter_startup_items render f, filter_tasks render f}"
      and "F items = (items', err)"
  shows "length items' = length items \<and>
         (\<forall>i<length items. items' ! i = items ! i \<or> suspect_consistent (items' ! i)) \<and>
         (err = None \<longrightarrow> (\<forall>r\<in>set items'. suspect_consistent r))"
proof -
  from assms obtain g where loop: "filter_loop (mark_item g f) items = (items', err)"
    by (auto simp: filter_processes_def filter_services_def filter_startup_items_def
          filter_tasks_def)
  have len: "length items' = length items"
    using loop by (rule filter_loop_length)
  have touched: "items' ! i = items ! i \<or> suspect_consistent (items' ! i)"
    if "i < length items" for i
    using filter_loop_nth [OF loop that] mark_item_consistent by blast
  have all: "suspect_consistent r" if "err = None" and "r \<in> set items'" for r
  proof -
    from that(2) obtain i where i: "i < length items'" "items' ! i = r"
      by (auto simp: in_set_conv_nth)
    with len loop that(1) have "mark_item g f (items ! i) = (r, None)"
      using filter_loop_ok_nth [of "mark_item g f" items items' i] by simp
    then show ?thesis by (rule mark_item_ok_consistent)
  qed
  from len touched all show ?thesis by blast
qed

theorem C3_witness:
  "filter_processes example_render example_filter
     [[(''name'', VStr ''RazerChromaService''), (''signature'', VStr ''Razer Inc.'')],
      [(''name'', VStr ''notepad.exe'')]] =
   ([[(''name'', VStr ''RazerChromaService''), (''signature'', VStr ''Razer Inc.''),
      (''is_suspect'', VBool True),
      (''suspect_reasons'', VList [VStr ''Matches bloatware pattern: (?i)chroma'',
                                  VStr ''Non-Microsoft signed: Razer Inc.'']),
      (''known_info'', VNone)],
     [(''name'', VStr ''notepad.exe''), (''is_suspect'', VBool False),
      (''suspect_reasons'', VList []), (''known_info'', VNone)]], None) \<and>
   suspect_consistent
     [(''name'', VStr ''notepad.exe''), (''is_suspect'', VBool False),
      (''suspect_reasons'', VList []), (''known_info'', VNone)]"
proof -
  let ?items = "[[(''name'', VStr ''RazerChromaService''), (''signature'', VStr ''Razer Inc.'')],
      [(''name'', VStr ''notepad.exe'')]]"
  let ?out = "[[(''name'', VStr ''RazerChromaService''), (''signature'', VStr ''Razer Inc.''),
      (''is_suspect'', VBool True),
      (''suspect_reasons'', VList [VStr ''Matches bloatware pattern: (?i)chroma'',
                                  VStr ''Non-Microsoft signed: Razer Inc.'']),
      (''known_info'', VNone)],
     [(''name'', VStr ''notepad.exe''), (''is_suspect'', VBool False),
      (''suspect_reasons'', VList []), (''known_info'', VNone)]]"
  have run: "filter_processes example_render example_filter ?items = (?out, None)"
    by code_simp
  have "filter_processes example_render example_filter \<in>
          {filter_processes example_render example_filter,
           filter_services example_render example_filter,
           filter_startup_items example_render example_filter,
           filter_tasks example_render example_filter}"
    by simp
  from C3_is_suspect_iff_reasons [OF this run] run show ?thesis by simp
qed

lemma update_absent: "k \<notin> fst ` set al \<Longrightarrow> AList.update k v al = al @ [(k, v)]"
  by (induction al) auto

lemma marked_absent:
  assumes "fst ` set r \<inter> filter_keys = {}"
  shows "marked r reasons info =
           r @ [(''is_suspect'', VBool (reasons \<noteq> [])),
                (''suspect_reasons'', VList (map VStr reasons)),
                (''known_info'', info)]"
proof -
  have 1: "''is_suspect'' \<notin> fst ` set r" "''suspect_reasons'' \<notin> fst ` set r"
    "''known_info'' \<notin> fst ` set r"
    using assms by (auto simp: filter_keys_def)
  show ?thesis
    unfolding marked_def using 1 by (simp add: update_absent)
qed

lemma marked_keys: "fst ` set (marked r reasons info) = fst ` set r \<union> filter_keys"
  by (auto simp: marked_def dom_update filter_keys_def)

lemma marked_frame: "k \<notin> filter_keys \<Longrightarrow> map_of (marked r reasons info) k = map_of r k"
  by (simp add: map_of_marked filter_keys_def)

lemma mark_item_frame:
  "mark_item g f r = (r', err) \<Longrightarrow> k \<notin> filter_keys \<Longrightarrow> map_of r' k = map_of r k"
  using mark_item_cases [of g f r r' err]
  by (auto simp: marked_frame update_conv' filter_keys_def)

text \<open>
  Claim C9, as amended. Each of the four filter operations assigns exactly the three keys
  \<^verbatim>\<open>is_suspect\<close>, \<^verbatim>\<open>suspect_reasons\<close> and \<^verbatim>\<open>known_info\<close> of every record it
  processes: no other field of any record changes, whether or not the operation returns;
  when it returns, the keys of each record are the old ones and these three, and a
  record that had none of the three is the old record with the three fields added at the
  end, in this order.
\<close>

theorem C9_filter_frame:
  assumes "F \<in> {filter_processes render f, filter_services render f,
                filter_startup_items render f, filter_tasks render f}"
      and "F items = (items', err)"
  shows "length items' = length items \<and>
         (\<forall>i<length items.
            (\<forall>k. k \<notin> filter_keys \<longrightarrow> map_of (items' ! i) k = map_of (items ! i) k) \<and>
            (err = None \<longrightarrow>
               fst ` set (items' ! i) = fst ` set (items ! i) \<union> filter_keys \<and>
               (fst ` set (items ! i) \<inter> filter_keys = {} \<longrightarrow>
                  (\<exists>reasons info.
                     items' ! i =
                       items ! i @ [(''is_suspect'', VBool (reasons \<noteq> [])),
                                    (''suspect_reasons'', VList (map VStr reasons)),
                                    (''known_info'', info)]))))"
proof -
  from assms obtain g where loop: "filter_loop (mark_item g f) items = (items', err)"
    by (auto simp: filter_processes_def filter_services_def filter_startup_items_def
          filter_tasks_def)
  have len: "length items' = length items"
    using loop by (rule filter_loop_length)
  have frame: "map_of (items' ! i) k = map_of (items ! i) k"
    if "i < length items" and "k \<notin> filter_keys" for i k
    using filter_loop_nth [OF loop that(1)] mark_item_frame [OF _ that(2)] by auto
  have full: "\<exists>reasons info. items' ! i = marked (items ! i) reasons info"
    if "i < length items" and "err = None" for i
  proof -
    from loop that have "mark_item g f (items ! i) = (items' ! i, None)"
      using filter_loop_ok_nth [of "mark_item g f" items items' i] by simp
    then show ?thesis
      using mark_item_cases [of g f "items ! i" "items' ! i" None] by auto
  qed
  have keys: "fst ` set (items' ! i) = fst ` set (items ! i) \<union> filter_keys"
    if "i < length items" and "err = None" for i
  proof -
    from full [OF that] obtain reasons info
      where "items' ! i = marked (items ! i) reasons info" by blast
    then show ?thesis by (simp only: marked_keys)
  qed
  have added: "\<exists>reasons info.
                 items' ! i =
                   items ! i @ [(''is_suspect'', VBool (reasons \<noteq> [])),
                                (''suspect_reasons'', VList (map VStr reasons)),
                                (''known_info'', info)]"
    if "i < length items" and "err = None" and "fst ` set (items ! i) \<inter> filter_keys = {}" for i
    using full [OF that(1,2)] marked_absent [OF that(3)] by auto
  from len frame keys added show ?thesis by blast
qed

theorem C9_witness:
  "filter_tasks example_render example_filter
     [[(''name'', VStr ''Backup''), (''state'', VStr ''Ready'')]] =
   ([[(''name'', VStr ''Backup''), (''state'', VStr ''Ready''),
      (''is_suspect'', VBool True),
      (''suspect_reasons'', VList [VStr ''Third-party task is enabled'']),
      (''known_info'', VNone)]], None) \<and>
   map_of [(''name'', VStr ''Backup''), (''state'', VStr ''Ready''),
      (''is_suspect'', VBool True),
      (''suspect_reasons'', VList [VStr ''Third-party task is enabled'']),
      (''known_info'', VNone)] ''state'' = Some (VStr ''Ready'')"
proof -
  let ?items = "[[(''name'', VStr ''Backup''), (''state'', VStr ''Ready'')]]"
  let ?out = "[[(''name'', VStr ''Backup''), (''state'', VStr ''Ready''),
      (''is_suspect'', VBool True),
      (''suspect_reasons'', VList [VStr ''Third-party task is enabled'']),
      (''known_info'', VNone)]]"
  have run: "filter_tasks example_render example_filter ?items = (?out, None)"
    by code_simp
  have mem: "filter_tasks example_render example_filter \<in>
          {filter_processes example_render example_filter,
           filter_services example_render example_filter,
           filter_startup_items example_render example_filter,
           filter_tasks example_render example_filter}"
    by simp
  have "''state'' \<notin> filter_keys"
    by (simp add: filter_keys_def)
  with C9_filter_frame [OF mem run] run show ?thesis by simp
qed

text \<open>
  A record that already has one of the three keys does not keep its value: here a service
  marked \<^verbatim>\<open>is_suspect = True\<close> beforehand comes back with \<^verbatim>\<open>is_suspect = False\<close>, and
  two fields are added, not three.
\<close>

theorem C9_counterexample:
  "filter_services example_render example_filter
     [[(''name'', VStr ''Spooler''), (''is_microsoft'', VBool True), (''is_suspect'', VBool True)]] =
   ([[(''name'', VStr ''Spooler''), (''is_microsoft'', VBool True), (''is_suspect'', VBool False),
      (''suspect_reasons'', VList []), (''known_info'', VNone)]], None)"
  by code_simp

lemma startup_text_enabled:
  "startup_text render (AList.update ''enabled'' v item) = startup_text render item"
  by (simp add: startup_text_def dict_get_update_other)

text \<open>
  Claim C10. A startup item without an \<^verbatim>\<open>enabled\<close> field, whose name is not in the
  Critical-Keep Set, gets the reason \<^verbatim>\<open>Enabled startup item\<close> as its last reason, the
  same reason list as the item with \<^verbatim>\<open>enabled = True\<close> added, and is marked suspect.
\<close>

theorem C10_absent_enabled_is_enabled:
  assumes "map_of item ''enabled'' = None"
      and "dict_get item ''name'' (VStr []) = VStr n"
      and "lower n \<notin> critical_keep f"
  shows "(\<exists>rs. get_suspect_reasons_startup render f item = Inr (rs @ [''Enabled startup item''])) \<and>
         get_suspect_reasons_startup render f (AList.update ''enabled'' (VBool True) item) =
           get_suspect_reasons_startup render f item \<and>
         snd (mark_item (get_suspect_reasons_startup render f) f item) = None \<and>
         map_of (fst (mark_item (get_suspect_reasons_startup render f) f item)) ''is_suspect'' =
           Some (VBool True)"
proof -
  let ?rs = "match_patterns (patterns f) (startup_text render item) []"
  have absent: "get_suspect_reasons_startup render f item = Inr (?rs @ [''Enabled startup item''])"
    using assms by (simp add: get_suspect_reasons_startup_def dict_get_def)
  have name': "dict_get (AList.update ''enabled'' (VBool True) item) ''name'' (VStr []) = VStr n"
    using assms(2) by (simp add: dict_get_update_other)
  have present: "get_suspect_reasons_startup render f (AList.update ''enabled'' (VBool True) item) =
      Inr (?rs @ [''Enabled startup item''])"
    using assms(3) name'
    by (simp add: get_suspect_reasons_startup_def startup_text_enabled)
       (simp add: dict_get_def update_conv')
  from mark_item_str [of "get_suspect_reasons_startup render f" item _ n f, OF absent assms(2)]
  obtain info where
    "mark_item (get_suspect_reasons_startup render f) f item =
       (marked item (?rs @ [''Enabled startup item'']) info, None)"
    by blast
  then have "snd (mark_item (get_suspect_reasons_startup render f) f item) = None"
    and "map_of (fst (mark_item (get_suspect_reasons_startup render f) f item)) ''is_suspect'' =
           Some (VBool True)"
    by (simp_all add: map_of_marked)
  with absent present show ?thesis by simp
qed

theorem C10_witness:
  "get_suspect_reasons_startup example_render example_filter
     [(''name'', VStr ''Notes''), (''command'', VStr ''notes.exe'')] =
     Inr [''Enabled startup item''] \<and>
   get_suspect_reasons_startup example_render example_filter
     [(''name'', VStr ''Notes''), (''command'', VStr ''notes.exe''), (''enabled'', VBool True)] =
     Inr [''Enabled startup item'']"
proof -
  let ?item = "[(''name'', VStr ''Notes''), (''command'', VStr ''notes.exe'')]"
  have 1: "map_of ?item ''enabled'' = None" by simp
  have 2: "dict_get ?item ''name'' (VStr []) = VStr ''Notes''" by (simp add: dict_get_def)
  have 3: "lower ''Notes'' \<notin> critical_keep example_filter" by code_simp
  have 4: "get_suspect_reasons_startup example_render example_filter ?item =
             Inr [''Enabled startup item'']"
    by code_simp
  from C10_absent_enabled_is_enabled [OF 1 2 3, of example_render] 4
  show ?thesis by simp
qed

lemma match_patterns_find:
  "match_patterns ps full_text reasons = reasons @ pattern_reason ps full_text"
  by (induction ps) (simp_all add: pattern_reason_def)

lemma pattern_reason_Nil: "pattern_reason [] full_text = []"
  by (simp add: pattern_reason_def)

lemma pattern_reason_count: "length (filter is_pattern_reason (pattern_reason ps full_text)) \<le> 1"
  by (simp add: pattern_reason_def split: option.splits)

lemma compile_all_append:
  "compile_all rc (xs @ ys) = compile_all rc xs @ compile_all rc ys"
  by (induction xs) (simp_all split: option.splits)

lemma compile_all_sources:
  "map pattern (compile_all rc ps) = filter (\<lambda>p. rc p \<noteq> None) ps"
  by (induction ps) (auto split: option.splits)

lemma signature_reasons_split:
  "signature_reasons render f proc reasons = Inr rs \<Longrightarrow>
     \<exists>rest. rs = reasons @ rest \<and> (\<forall>s\<in>set rest. \<not> is_pattern_reason s) \<and>
       (\<forall>reasons'. signature_reasons render f proc reasons' = Inr (reasons' @ rest))"
  by (auto simp: signature_reasons_def Let_def is_pattern_reason_def
           split: if_splits sum.splits)

lemma process_split:
  assumes "dict_get r ''name'' (VStr []) = VStr n" and "lower n \<notin> critical_keep f"
      and "get_suspect_reasons_process render f r = Inr rs"
  shows "\<exists>rest. rs = pattern_reason (patterns f) (process_text render r) @ rest \<and>
           get_suspect_reasons_process render (f\<lparr>patterns := []\<rparr>) r = Inr rest \<and>
           (\<forall>s\<in>set rest. \<not> is_pattern_reason s)"
proof -
  let ?p = "pattern_reason (patterns f) (process_text render r)"
  let ?mem = "dict_get r ''memory_percent'' (VInt 0)"
  let ?cpu = "dict_get r ''cpu_percent'' (VInt 0)"
  from assms obtain hm where hm: "py_gt ?mem (high_memory_threshold f) = Inr hm"
    by (auto simp: get_suspect_reasons_process_def Let_def split: sum.splits)
  from assms hm obtain hc where hc: "py_gt ?cpu (high_cpu_threshold f) = Inr hc"
    by (auto simp: get_suspect_reasons_process_def Let_def split: sum.splits)
  let ?m = "if hm then [''High memory usage: '' @ py_str render ?mem @ ''%''] else []"
  let ?c = "if hc then [''High CPU usage: '' @ py_str render ?cpu @ ''%''] else []"
  have sig: "signature_reasons render f r (?p @ ?m @ ?c) = Inr rs"
    using assms hm hc
    by (auto simp: get_suspect_reasons_process_def Let_def match_patterns_find)
  from signature_reasons_split [OF sig] obtain rest where
    rest: "rs = (?p @ ?m @ ?c) @ rest" "\<forall>s\<in>set rest. \<not> is_pattern_reason s"
      "\<forall>reasons'. signature_reasons render f r reasons' = Inr (reasons' @ rest)"
    by blast
  have sig': "signature_reasons render (f\<lparr>patterns := []\<rparr>) r reasons' =
                signature_reasons render f r reasons'" for reasons'
    by (simp add: signature_reasons_def)
  have "get_suspect_reasons_process render (f\<lparr>patterns := []\<rparr>) r = Inr (?m @ ?c @ rest)"
    using assms(1,2) hm hc rest(3)
    by (auto simp: get_suspect_reasons_process_def Let_def sig')
  moreover have "\<forall>s\<in>set (?m @ ?c @ rest). \<not> is_pattern_reason s"
    using rest(2) by (auto simp: is_pattern_reason_def)
  moreover have "rs = ?p @ (?m @ ?c @ rest)"
    using rest(1) by simp
  ultimately show ?thesis by blast
qed

lemma service_split:
  assumes "dict_get r ''name'' (VStr []) = VStr n" and "lower n \<notin> critical_keep f"
      and "get_suspect_reasons_service render f r = Inr rs"
  shows "\<exists>rest. rs = pattern_reason (patterns f) (service_text render r) @ rest \<and>
           get_suspect_reasons_service render (f\<lparr>patterns := []\<rparr>) r = Inr rest \<and>
           (\<forall>s\<in>set rest. \<not> is_pattern_reason s)"
  using assms
  by (auto simp: get_suspect_reasons_service_def Let_def match_patterns_find
        pattern_reason_Nil is_pattern_reason_def)

lemma startup_split:
  assumes "dict_get r ''name'' (VStr []) = VStr n" and "lower n \<notin> critical_keep f"
      and "get_suspect_reasons_startup render f r = Inr rs"
  shows "\<exists>rest. rs = pattern_reason (patterns f) (startup_text render r) @ rest \<and>
           get_suspect_reasons_startup render (f\<lparr>patterns := []\<rparr>) r = Inr rest \<and>
           (\<forall>s\<in>set rest. \<not> is_pattern_reason s)"
  using assms
  by (auto simp: get_suspect_reasons_startup_def Let_def match_patterns_find
        pattern_reason_Nil is_pattern_reason_def)

lemma task_split:
  assumes "dict_get r ''name'' (VStr []) = VStr n" and "lower n \<notin> critical_keep f"
      and "get_suspect_reasons_task render f r = Inr rs"
  shows "\<exists>rest. rs = pattern_reason (patterns f) (task_text render r) @ rest \<and>
           get_suspect_reasons_task render (f\<lparr>patterns := []\<rparr>) r = Inr rest \<and>
           (\<forall>s\<in>set rest. \<not> is_pattern_reason s)"
  using assms
  by (auto simp: get_suspect_reasons_task_def Let_def match_patterns_find
        pattern_reason_Nil is_pattern_reason_def)

text \<open>
  Claim C4. The compiled rules are the built-in defaults that compile, in their order,
  followed by the operator's patterns that compile, in theirs. For a record that is not
  excluded, the reasons are the pattern reason of the first rule, in this order, that
  matches the concatenated text fields (none if no rule matches), followed by exactly the
  reasons the same record gets when there are no rules at all; none of the latter is a
  pattern reason, so at most one pattern reason is reported.
\<close>

theorem C4_first_pattern_wins:
  assumes "(g, txt) \<in> {(get_suspect_reasons_process, process_text),
                       (get_suspect_reasons_service, service_text),
                       (get_suspect_reasons_startup, startup_text),
                       (get_suspect_reasons_task, task_text)}"
      and "dict_get r ''name'' (VStr []) = VStr n"
      and "lower n \<notin> critical_keep f"
      and "g render f r = Inr rs"
  shows "patterns (init_filter rc settings known m) =
           compile_all rc DEFAULT_PATTERNS @ compile_all rc (bloatware_patterns settings) \<and>
         map pattern (compile_all rc ps) = filter (\<lambda>p. rc p \<noteq> None) ps \<and>
         (\<exists>rest. rs = pattern_reason (patterns f) (txt render r) @ rest \<and>
                  g render (f\<lparr>patterns := []\<rparr>) r = Inr rest \<and>
                  (\<forall>s\<in>set rest. \<not> is_pattern_reason s)) \<and>
         length (filter is_pattern_reason rs) \<le> 1"
proof -
  have order: "patterns (init_filter rc settings known m) =
           compile_all rc DEFAULT_PATTERNS @ compile_all rc (bloatware_patterns settings)"
    by (simp add: init_filter_def compile_patterns_def compile_all_append)
  have split: "\<exists>rest. rs = pattern_reason (patterns f) (txt render r) @ rest \<and>
                  g render (f\<lparr>patterns := []\<rparr>) r = Inr rest \<and>
                  (\<forall>s\<in>set rest. \<not> is_pattern_reason s)"
    using assms(1) process_split [OF assms(2,3)] service_split [OF assms(2,3)]
      startup_split [OF assms(2,3)] task_split [OF assms(2,3)] assms(4)
    by auto
  then obtain rest where rest: "rs = pattern_reason (patterns f) (txt render r) @ rest"
      "\<forall>s\<in>set rest. \<not> is_pattern_reason s"
    by blast
  have "filter is_pattern_reason rest = []"
    using rest(2) by (simp add: filter_empty_conv)
  then have "length (filter is_pattern_reason rs) \<le> 1"
    using rest(1) pattern_reason_count [of "patterns f" "txt render r"] by simp
  with order split compile_all_sources show ?thesis by blast
qed

theorem C4_witness:
  "pattern_reason (patterns example_filter)
     (process_text example_render
        [(''name'', VStr ''RazerChromaService''), (''signature'', VStr ''Razer Inc.'')]) =
     [''Matches bloatware pattern: (?i)chroma''] \<and>
   get_suspect_reasons_process example_render example_filter
     [(''name'', VStr ''RazerChromaService''), (''signature'', VStr ''Razer Inc.'')] =
     Inr [''Matches bloatware pattern: (?i)chroma'', ''Non-Microsoft signed: Razer Inc.''] \<and>
   length (filter is_pattern_reason
     [''Matches bloatware pattern: (?i)chroma'', ''Non-Microsoft signed: Razer Inc.'']) \<le> 1 \<and>
   search (patterns example_filter ! 5) ''RazerChromaService''"
proof -
  let ?r = "[(''name'', VStr ''RazerChromaService''), (''signature'', VStr ''Razer Inc.'')]"
  have 1: "(get_suspect_reasons_process, process_text) \<in>
             {(get_suspect_reasons_process, process_text),
              (get_suspect_reasons_service, service_text),
              (get_suspect_reasons_startup, startup_text),
              (get_suspect_reasons_task, task_text)}"
    by simp
  have 2: "dict_get ?r ''name'' (VStr []) = VStr ''RazerChromaService''"
    by (simp add: dict_get_def)
  have 3: "lower ''RazerChromaService'' \<notin> critical_keep example_filter"
    by code_simp
  have 4: "get_suspect_reasons_process example_render example_filter ?r =
             Inr [''Matches bloatware pattern: (?i)chroma'', ''Non-Microsoft signed: Razer Inc.'']"
    by code_simp
  have 5: "pattern_reason (patterns example_filter) (process_text example_render ?r) =
             [''Matches bloatware pattern: (?i)chroma'']"
    by code_simp
  have 6: "search (patterns example_filter ! 5) ''RazerChromaService''"
    by code_simp
  from C4_first_pattern_wins [OF 1 2 3 4] 4 5 6 show ?thesis by simp
qed

section \<open>Properties of the researcher\<close>

lemma find_ci_find:
  "find_ci nm kb = map_option snd (find (\<lambda>(k, info). lower k = nm) kb)"
  by (induction kb) auto

lemma find_partial_find:
  "find_partial nm kb =
     map_option snd (find (\<lambda>(k, info). sublist (lower k) nm \<or> sublist nm (lower k)) kb)"
proof (induction kb)
  case Nil
  then show ?case by simp
next
  case (Cons a kb)
  obtain k info where a: "a = (k, info)" by (cases a)
  show ?case
  proof (cases "sublist (lower k) nm \<or> sublist nm (lower k)")
    case True
    then show ?thesis unfolding a by simp
  next
    case False
    then show ?thesis unfolding a using Cons.IH by simp
  qed
qed

text \<open>
  Claim C6, as amended. The Research Resolver takes a true \<^verbatim>\<open>known_info\<close> attached to
  the record; else the entry under the exact name; else the first entry, in iteration
  order, whose key equals the name up to case; else the first entry whose lower-cased key
  contains the lower-cased name or is contained in it; else nothing. The lookup that
  attaches \<^verbatim>\<open>known_info\<close> during classification stops after the case-insensitive
  match: it has no substring step.
\<close>

theorem C6_lookup_order:
  "resolve_known_info kb item =
     (if truthy (dict_get0 item ''known_info'') then Inr (dict_get0 item ''known_info'')
      else lookup_known kb (dict_get item ''name'' (VStr ''Unknown''))) \<and>
   lookup_known kb (VStr name) =
     Inr (case map_of kb name of
            Some info \<Rightarrow> VDict info
          | None \<Rightarrow>
              (case first_ci name kb of
                 Some (k, info) \<Rightarrow> VDict info
               | None \<Rightarrow>
                   (case first_partial name kb of
                      Some (k, info) \<Rightarrow> VDict info
                    | None \<Rightarrow> VNone))) \<and>
   get_known_info f (VStr name) =
     Inr (case map_of (known_processes f) name of
            Some info \<Rightarrow> VDict info
          | None \<Rightarrow>
              (case first_ci name (known_processes f) of
                 Some (k, info) \<Rightarrow> VDict info
               | None \<Rightarrow> VNone))"
proof -
  have 1: "resolve_known_info kb item =
     (if truthy (dict_get0 item ''known_info'') then Inr (dict_get0 item ''known_info'')
      else lookup_known kb (dict_get item ''name'' (VStr ''Unknown'')))"
    by (simp add: resolve_known_info_def Let_def)
  have 2: "lookup_known kb (VStr name) =
     Inr (case map_of kb name of
            Some info \<Rightarrow> VDict info
          | None \<Rightarrow>
              (case first_ci name kb of
                 Some (k, info) \<Rightarrow> VDict info
               | None \<Rightarrow>
                   (case first_partial name kb of
                      Some (k, info) \<Rightarrow> VDict info
                    | None \<Rightarrow> VNone)))"
    unfolding lookup_known.simps find_ci_find find_partial_find first_ci_def first_partial_def
    by (auto split: option.splits)
  have 3: "get_known_info f (VStr name) =
     Inr (case map_of (known_processes f) name of
            Some info \<Rightarrow> VDict info
          | None \<Rightarrow>
              (case first_ci name (known_processes f) of
                 Some (k, info) \<Rightarrow> VDict info
               | None \<Rightarrow> VNone))"
    unfolding get_known_info.simps find_ci_find first_ci_def
    by (auto split: option.splits)
  from 1 2 3 show ?thesis by blast
qed

text \<open>
  With the one Knowledge Base, the name \<^verbatim>\<open>RazerChroma.exe\<close> resolves to the entry
  \<^verbatim>\<open>Razer\<close> in the researcher (substring match), while the filter's lookup finds
  nothing and attaches \<^verbatim>\<open>known_info = None\<close>.
\<close>

theorem C6_counterexample:
  "lookup_known example_known (VStr ''RazerChroma.exe'') =
     Inr (VDict [(''category'', VStr ''rgb_software''), (''recommendation'', VStr ''REMOVE'')]) \<and>
   get_known_info example_filter (VStr ''RazerChroma.exe'') = Inr VNone \<and>
   known_processes example_filter = example_known \<and>
   filter_processes example_render example_filter
     [[(''name'', VStr ''RazerChroma.exe''), (''signature'', VStr ''Microsoft Corporation'')]] =
   ([[(''name'', VStr ''RazerChroma.exe''), (''signature'', VStr ''Microsoft Corporation''),
      (''is_suspect'', VBool True),
      (''suspect_reasons'', VList [VStr ''Matches bloatware pattern: (?i)chroma'']),
      (''known_info'', VNone)]], None)"
  by code_simp

lemma guess_category_first_bucket:
  "py_lower (dict_get item ''name'' (VStr [])) = Inr name \<Longrightarrow>
     guess_category render item = Inr (first_bucket name (guess_path render item))"
  by (simp add: guess_category_def first_bucket_def category_buckets_def has_keyword_def
        Let_def list_ex_iff del: set_simps) 

lemma lookup_known_str:
  "lookup_known kb v = Inr y \<Longrightarrow> \<exists>n. v = VStr n"
  by (cases v) simp_all

lemma name_defaults:
  "dict_get item ''name'' (VStr ''Unknown'') = VStr n \<Longrightarrow>
     \<exists>n'. dict_get item ''name'' (VStr []) = VStr n'"
  by (auto simp: dict_get_def split: option.splits)

lemma notes_list:
  "dict_get item ''suspect_reasons'' (VList []) = VList rs \<Longrightarrow>
     \<exists>notes. generate_research_notes render item ty = Inr notes"
  by (simp add: generate_research_notes_def Let_def)

text \<open>
  Claim C7. A record with no true \<^verbatim>\<open>known_info\<close> attached and no Knowledge Base
  match for its name (exact, case-insensitive or substring), whose \<^verbatim>\<open>suspect_reasons\<close>
  is a list as the filter leaves it, is researched without raising, with
  \<^verbatim>\<open>source = needs_research\<close>, \<^verbatim>\<open>recommendation = REVIEW\<close>,
  \<^verbatim>\<open>safety_rating = UNKNOWN\<close>, \<^verbatim>\<open>requires_further_research = True\<close>, and as category
  the first bucket, in the fixed order, one of whose keywords occurs in the lower-cased
  name or path, else \<^verbatim>\<open>unknown\<close>.
\<close>

theorem C7_unknown_item_needs_research:
  assumes "\<not> truthy (dict_get0 item ''known_info'')"
      and "lookup_known kb (dict_get item ''name'' (VStr ''Unknown'')) = Inr VNone"
      and "dict_get item ''suspect_reasons'' (VList []) = VList rs"
  shows "\<exists>res name.
           research_item render now kb item ty = Inr res \<and>
           py_lower (dict_get item ''name'' (VStr [])) = Inr name \<and>
           map_of res ''source'' = Some (VStr ''needs_research'') \<and>
           map_of res ''recommendation'' = Some (VStr ''REVIEW'') \<and>
           map_of res ''safety_rating'' = Some (VStr ''UNKNOWN'') \<and>
           map_of res ''requires_further_research'' = Some (VBool True) \<and>
           map_of res ''category'' = Some (VStr (first_bucket name (guess_path render item)))"
proof -
  have known: "resolve_known_info kb item = Inr VNone"
    using assms(1,2) by (simp add: resolve_known_info_def Let_def)
  from lookup_known_str [OF assms(2)] obtain n
    where "dict_get item ''name'' (VStr ''Unknown'') = VStr n" by blast
  from name_defaults [OF this] obtain n'
    where n': "dict_get item ''name'' (VStr []) = VStr n'" by blast
  then have low: "py_lower (dict_get item ''name'' (VStr [])) = Inr (lower n')" by simp
  have cat: "guess_category render item = Inr (first_bucket (lower n') (guess_path render item))"
    using low by (rule guess_category_first_bucket)
  from notes_list [OF assms(3)] obtain ntext
    where nts: "generate_research_notes render item ty = Inr ntext" by blast
  let ?res = "[(''name'', dict_get item ''name'' (VStr ''Unknown'')),
               (''type'', VStr ty),
               (''researched_at'', VStr now),
               (''suspect_reasons'', dict_get item ''suspect_reasons'' (VList [])),
               (''source'', VStr ''needs_research''),
               (''category'', VStr (first_bucket (lower n') (guess_path render item))),
               (''publisher'', extract_publisher render item),
               (''purpose'', VStr ''Unknown - requires research''),
               (''recommendation'', VStr ''REVIEW''),
               (''safety_rating'', VStr ''UNKNOWN''),
               (''notes'', VStr ntext),
               (''requires_further_research'', VBool True),
               (''item_details'', VDict (extract_item_details item ty))]"
  have run: "research_item render now kb item ty = Inr ?res"
    by (simp add: research_item_def known cat nts)
  have "map_of ?res ''source'' = Some (VStr ''needs_research'')"
    and "map_of ?res ''recommendation'' = Some (VStr ''REVIEW'')"
    and "map_of ?res ''safety_rating'' = Some (VStr ''UNKNOWN'')"
    and "map_of ?res ''requires_further_research'' = Some (VBool True)"
    and "map_of ?res ''category'' = Some (VStr (first_bucket (lower n') (guess_path render item)))"
    by simp_all
  with run low show ?thesis by blast
qed

theorem C7_witness:
  "research_item example_render ''2026-01-01T00:00:00'' example_known
     [(''name'', VStr ''XClientService''), (''path'', VStr ''C:/Program Files/X/xc.exe''),
      (''is_suspect'', VBool True),
      (''suspect_reasons'', VList [VStr ''Third-party service currently running'']),
      (''known_info'', VNone)] ''service'' =
   Inr [(''name'', VStr ''XClientService''), (''type'', VStr ''service''),
        (''researched_at'', VStr ''2026-01-01T00:00:00''),
        (''suspect_reasons'', VList [VStr ''Third-party service currently running'']),
        (''source'', VStr ''needs_research''),
        (''category'', VStr ''unknown''),
        (''publisher'', VNone),
        (''purpose'', VStr ''Unknown - requires research''),
        (''recommendation'', VStr ''REVIEW''),
        (''safety_rating'', VStr ''UNKNOWN''),
        (''notes'', VStr
           (''Item '' @ [CHR 0x27] @ ''XClientService'' @ [CHR 0x27] @ '' requires manual research.'' @ nl @
            nl @ ''Suggested searches:'' @ nl @
            ''  - '' @ [CHR 0x22] @ ''XClientService what is'' @ [CHR 0x22] @ nl @
            ''  - '' @ [CHR 0x22] @ ''XClientService safe to disable'' @ [CHR 0x22] @ nl @
            ''  - '' @ [CHR 0x22] @ ''XClientService Windows 11'' @ [CHR 0x22] @ nl @
            nl @ ''File location: C:/Program Files/X/xc.exe'' @ nl @
            nl @ ''Flagged because:'' @ nl @
            ''  - Third-party service currently running'')),
        (''requires_further_research'', VBool True),
        (''item_details'',
         VDict [(''type'', VStr ''service''), (''display_name'', VNone), (''state'', VNone),
                (''start_mode'', VNone), (''path'', VStr ''C:/Program Files/X/xc.exe''),
                (''account'', VNone)])] \<and>
   first_bucket ''xclientservice'' ''c:/program files/x/xc.exe'' = ''unknown''"
proof -
  let ?item = "[(''name'', VStr ''XClientService''), (''path'', VStr ''C:/Program Files/X/xc.exe''),
      (''is_suspect'', VBool True),
      (''suspect_reasons'', VList [VStr ''Third-party service currently running'']),
      (''known_info'', VNone)]"
  have 1: "\<not> truthy (dict_get0 ?item ''known_info'')"
    by (simp add: dict_get0_def dict_get_def)
  have 2: "lookup_known example_known (dict_get ?item ''name'' (VStr ''Unknown'')) = Inr VNone"
    by code_simp
  have 3: "dict_get ?item ''suspect_reasons'' (VList []) =
             VList [VStr ''Third-party service currently running'']"
    by (simp add: dict_get_def)
  have 4: "first_bucket ''xclientservice'' ''c:/program files/x/xc.exe'' = ''unknown''"
    by code_simp
  have 5: "py_lower (dict_get ?item ''name'' (VStr [])) = Inr ''xclientservice''"
    by code_simp
  have 6: "guess_path example_render ?item = ''c:/program files/x/xc.exe''"
    by code_simp
  obtain res name where
    r: "research_item example_render ''2026-01-01T00:00:00'' example_known ?item ''service'' = Inr res"
    using C7_unknown_item_needs_research [OF 1 2 3] by blast
  have "research_item example_render ''2026-01-01T00:00:00'' example_known ?item ''service'' = Inr
       [(''name'', VStr ''XClientService''), (''type'', VStr ''service''),
        (''researched_at'', VStr ''2026-01-01T00:00:00''),
        (''suspect_reasons'', VList [VStr ''Third-party service currently running'']),
        (''source'', VStr ''needs_research''),
        (''category'', VStr ''unknown''),
        (''publisher'', VNone),
        (''purpose'', VStr ''Unknown - requires research''),
        (''recommendation'', VStr ''REVIEW''),
        (''safety_rating'', VStr ''UNKNOWN''),
        (''notes'', VStr
           (''Item '' @ [CHR 0x27] @ ''XClientService'' @ [CHR 0x27] @ '' requires manual research.'' @ nl @
            nl @ ''Suggested searches:'' @ nl @
            ''  - '' @ [CHR 0x22] @ ''XClientService what is'' @ [CHR 0x22] @ nl @
            ''  - '' @ [CHR 0x22] @ ''XClientService safe to disable'' @ [CHR 0x22] @ nl @
            ''  - '' @ [CHR 0x22] @ ''XClientService Windows 11'' @ [CHR 0x22] @ nl @
            nl @ ''File location: C:/Program Files/X/xc.exe'' @ nl @
            nl @ ''Flagged because:'' @ nl @
            ''  - Third-party service currently running'')),
        (''requires_further_research'', VBool True),
        (''item_details'',
         VDict [(''type'', VStr ''service''), (''display_name'', VNone), (''state'', VNone),
                (''start_mode'', VNone), (''path'', VStr ''C:/Program Files/X/xc.exe''),
                (''account'', VNone)])]"
    by code_simp
  with r 4 show ?thesis by simp
qed

text \<open>
  On results whose recommendation is one of the four bucket names, aggregation returns,
  and each bucket holds the entries of exactly the results with that recommendation, in
  traversal order (kind by kind, and within a kind in list order).
\<close>

lemma add_recommendation_valid:
  assumes "valid_result item"
  shows "add_recommendation ty item (buckets a b c d) =
           Inr (buckets (a @ bucket ''REMOVE'' [(ty, item)]) (b @ bucket ''DISABLE'' [(ty, item)])
                  (c @ bucket ''KEEP'' [(ty, item)]) (d @ bucket ''REVIEW'' [(ty, item)]))"
proof -
  from assms obtain name where name: "map_of item ''name'' = Some name"
    by (auto simp: valid_result_def)
  from assms consider
      "dict_get item ''recommendation'' (VStr ''REVIEW'') = VStr ''REMOVE''"
    | "dict_get item ''recommendation'' (VStr ''REVIEW'') = VStr ''DISABLE''"
    | "dict_get item ''recommendation'' (VStr ''REVIEW'') = VStr ''KEEP''"
    | "dict_get item ''recommendation'' (VStr ''REVIEW'') = VStr ''REVIEW''"
    by (auto simp: valid_result_def)
  then show ?thesis
    by cases (simp_all add: add_recommendation_def buckets_def bucket_def name)
qed

lemma bucket_append: "bucket rec (xs @ ys) = bucket rec xs @ bucket rec ys"
  by (simp add: bucket_def)

lemma add_items_valid:
  "\<forall>item\<in>set items. valid_result item \<Longrightarrow>
     add_items ty items (buckets a b c d) =
       Inr (buckets (a @ bucket ''REMOVE'' (map (Pair ty) items))
              (b @ bucket ''DISABLE'' (map (Pair ty) items))
              (c @ bucket ''KEEP'' (map (Pair ty) items))
              (d @ bucket ''REVIEW'' (map (Pair ty) items)))"
proof (induction items arbitrary: a b c d)
  case Nil
  then show ?case by (simp add: bucket_def)
next
  case (Cons item items)
  have split: "map (Pair ty) (item # items) = [(ty, item)] @ map (Pair ty) items" by simp
  from Cons.prems have "valid_result item" and rest: "\<forall>item\<in>set items. valid_result item"
    by simp_all
  then show ?case
    unfolding split bucket_append
    by (simp add: add_recommendation_valid Cons.IH [OF rest])
qed

lemma add_kinds_valid:
  "\<forall>(ty, item)\<in>set (tagged results). valid_result item \<Longrightarrow>
     add_kinds results (buckets a b c d) =
       Inr (buckets (a @ bucket ''REMOVE'' (tagged results))
              (b @ bucket ''DISABLE'' (tagged results))
              (c @ bucket ''KEEP'' (tagged results))
              (d @ bucket ''REVIEW'' (tagged results)))"
proof (induction results arbitrary: a b c d)
  case Nil
  then show ?case by (simp add: tagged_def bucket_def)
next
  case (Cons kind results)
  obtain ty items where kind: "kind = (ty, items)" by (cases kind)
  have t: "tagged (kind # results) = map (Pair ty) items @ tagged results"
    by (simp add: tagged_def kind)
  from Cons.prems have 1: "\<forall>item\<in>set items. valid_result item"
    and 2: "\<forall>(ty, item)\<in>set (tagged results). valid_result item"
    unfolding t by auto
  have t': "tagged ((ty, items) # results) = map (Pair ty) items @ tagged results"
    using t by (simp add: kind)
  show ?case
    unfolding kind
    by (simp add: add_items_valid [OF 1] Cons.IH [OF 2] t' bucket_append)
qed

lemma generate_recommendations_valid:
  assumes "\<forall>(ty, item)\<in>set (tagged results). valid_result item"
  shows "generate_recommendations results =
           Inr [(''REMOVE'', bucket ''REMOVE'' (tagged results)),
                (''DISABLE'', bucket ''DISABLE'' (tagged results)),
                (''KEEP'', bucket ''KEEP'' (tagged results)),
                (''REVIEW'', bucket ''REVIEW'' (tagged results))]"
  using add_kinds_valid [OF assms, of "[]" "[]" "[]" "[]"]
  by (simp add: generate_recommendations_def empty_recommendations_def buckets_def)

text \<open>
  Claim C5 says that aggregation is total, whatever the recommendation fields hold. The
  code is not: a Knowledge Base entry without a \<^verbatim>\<open>recommendation\<close> field is researched
  into a result whose recommendation is None (the key is present, so the default
  \<^verbatim>\<open>REVIEW\<close> of \<^verbatim>\<open>item.get("recommendation", "REVIEW")\<close> does not apply), and
  \<^verbatim>\<open>recommendations[None]\<close> raises KeyError; so does any recommendation string other
  than the four bucket names.
\<close>

theorem C5_aggregation_raises:
  "research_all_suspects example_render ''2026-01-01T00:00:00'' example_unrated_known
     [[(''name'', VStr ''Foo Updater''), (''is_suspect'', VBool True),
       (''suspect_reasons'', VList [VStr ''High CPU usage: 9%'']),
       (''known_info'', VDict [(''category'', VStr ''updater''), (''publisher'', VStr ''Foo Inc.'')])]]
     [] [] [] =
   Inr [(''processes'',
         [[(''name'', VStr ''Foo Updater''), (''type'', VStr ''process''),
           (''researched_at'', VStr ''2026-01-01T00:00:00''),
           (''suspect_reasons'', VList [VStr ''High CPU usage: 9%'']),
           (''source'', VStr ''known_processes_database''),
           (''category'', VStr ''updater''), (''publisher'', VStr ''Foo Inc.''),
           (''purpose'', VNone), (''recommendation'', VNone), (''safety_rating'', VNone),
           (''notes'', VNone), (''requires_further_research'', VBool False),
           (''item_details'',
            VDict [(''type'', VStr ''process''), (''pid'', VNone), (''exe_path'', VNone),
                   (''memory_mb'', VNone), (''cpu_percent'', VNone), (''parent'', VNone)])]]),
        (''services'', []), (''startup_items'', []), (''tasks'', [])] \<and>
   generate_recommendations
     [(''processes'',
         [[(''name'', VStr ''Foo Updater''), (''type'', VStr ''process''),
           (''researched_at'', VStr ''2026-01-01T00:00:00''),
           (''suspect_reasons'', VList [VStr ''High CPU usage: 9%'']),
           (''source'', VStr ''known_processes_database''),
           (''category'', VStr ''updater''), (''publisher'', VStr ''Foo Inc.''),
           (''purpose'', VNone), (''recommendation'', VNone), (''safety_rating'', VNone),
           (''notes'', VNone), (''requires_further_research'', VBool False),
           (''item_details'',
            VDict [(''type'', VStr ''process''), (''pid'', VNone), (''exe_path'', VNone),
                   (''memory_mb'', VNone), (''cpu_percent'', VNone), (''parent'', VNone)])]]),
        (''services'', []), (''startup_items'', []), (''tasks'', [])] =
   Inl (KeyError VNone) \<and>
   generate_recommendations
     [(''processes'', [[(''name'', VStr ''Bar''), (''recommendation'', VStr ''UNINSTALL'')]])] =
   Inl (KeyError (VStr ''UNINSTALL''))"
  by code_simp

section \<open>Properties of the audit logger\<close>

text \<open>
  The emitted rollback list of any session, from a fresh journal: per successful recording
  with a non-empty command, in reverse order of recording, an empty line, the command,
  and then its label.
\<close>

lemma run_call_rollback_commands:
  "rollback_commands (run_call render L c) =
     rollback_commands L @
     concat (map (\<lambda>(act, tgt, rollback). [label act tgt, rollback, '''']) (recorded c))"
  by (cases c) (simp_all add: log_change_def log_dry_run_def log_message_def Let_def label_def)

lemma run_calls_rollback_commands:
  "rollback_commands (run_calls render L calls) =
     rollback_commands L @
     concat (map (\<lambda>(act, tgt, rollback). [label act tgt, rollback, ''''])
               (concat (map recorded calls)))"
  unfolding run_calls_def
  by (induction calls arbitrary: L) (simp_all add: run_call_rollback_commands)

lemma rollback_actions_reversed:
  assumes "rollback_commands L = []"
  shows "rollback_actions (run_calls render L calls) =
     concat (map (\<lambda>(act, tgt, rollback). ['''', rollback, label act tgt])
               (rev (concat (map recorded calls))))"
proof -
  have "rev (concat (map (\<lambda>(act, tgt, rollback). [label act tgt, rollback, '''']) xs)) =
        concat (map (\<lambda>(act, tgt, rollback). ['''', rollback, label act tgt]) (rev xs))"
    for xs :: "(string \<times> string \<times> string) list"
    by (induction xs) auto
  then show ?thesis
    by (simp add: rollback_actions_def run_calls_rollback_commands assms)
qed

text \<open>
  Claim C2 says that the emitted rollback list holds each recorded command preceded by its
  label. The code appends label, command and an empty line per recording and reverses
  the whole list line by line, so that in the emitted list each command comes first and
  its own label follows it: here the command for \<^verbatim>\<open>Bar\<close> is followed by the label of
  \<^verbatim>\<open>Bar\<close>, and the command for \<^verbatim>\<open>Foo\<close> is preceded by the label of \<^verbatim>\<open>Bar\<close>. The
  commands themselves are those of the two successful recordings, in reverse order.
\<close>

theorem C2_label_follows_command:
  "rollback_actions (run_calls example_render (init_logger ''data/audit_logs'' ''s1'' ''t0'') example_session) =
     ['''', ''Set-Service Bar -StartupType Automatic'', ''# Rollback: disable_service - Bar'',
      '''', ''Set-Service Foo -StartupType Automatic'', ''# Rollback: disable_service - Foo'']"
  by code_simp

lemma get_summary_frame:
  "changes L' = changes L \<Longrightarrow> session_id L' = session_id L \<Longrightarrow> log_file L' = log_file L \<Longrightarrow>
     rollback_file L' = rollback_file L \<Longrightarrow> get_summary L' = get_summary L"
  by (simp add: get_summary_def)

lemma finalize_summary: "fst (finalize render n1 n2 L) = get_summary L"
  by (simp add: finalize_def Let_def save_rollback_script_def get_summary_def)

lemma finalize_attributes:
  "session_id (snd (finalize render n1 n2 L)) = session_id L"
  "log_file (snd (finalize render n1 n2 L)) = log_file L"
  "rollback_file (snd (finalize render n1 n2 L)) = rollback_file L"
  "changes (snd (finalize render n1 n2 L)) = changes L"
  "rollback_commands (snd (finalize render n1 n2 L)) = rollback_commands L"
  by (simp_all add: finalize_def Let_def save_rollback_script_def)

lemma finalize_files:
  "log_contents (snd (finalize render n1 n2 L)) =
     log_contents L @ session_footer render n2 (get_summary L)"
  "rollback_contents (snd (finalize render n1 n2 L)) =
     Some (script_preamble (session_id L) n1 @ map (\<lambda>cmd. cmd @ nl) (rollback_actions L) @
           [nl @ ''Write-Host '' @ [CHR 0x22] @ ''Rollback complete.'' @ [CHR 0x22] @ nl])"
  "yaml_contents (snd (finalize render n1 n2 L)) = Some (get_summary L, changes L)"
  by (simp_all add: finalize_def Let_def save_rollback_script_def get_summary_def
        rollback_actions_def)

text \<open>
  Claim C8, as amended. A second \<^verbatim>\<open>finalize\<close> with no recording in between returns the
  same summary as the first, leaves the recorded changes and rollback commands as they
  were, and rewrites the YAML change log and the rollback script with the content a
  first call at that time would have written; but it appends a second closing block to
  the execution log.
\<close>

theorem C8_finalize_twice:
  "fst (finalize render n3 n4 (snd (finalize render n1 n2 L))) = fst (finalize render n1 n2 L) \<and>
   changes (snd (finalize render n3 n4 (snd (finalize render n1 n2 L)))) = changes L \<and>
   rollback_commands (snd (finalize render n3 n4 (snd (finalize render n1 n2 L)))) =
     rollback_commands L \<and>
   yaml_contents (snd (finalize render n3 n4 (snd (finalize render n1 n2 L)))) =
     yaml_contents (snd (finalize render n1 n2 L)) \<and>
   rollback_contents (snd (finalize render n3 n4 (snd (finalize render n1 n2 L)))) =
     rollback_contents (snd (finalize render n3 n2 L)) \<and>
   log_contents (snd (finalize render n3 n4 (snd (finalize render n1 n2 L)))) =
     log_contents (snd (finalize render n1 n2 L)) @
     session_footer render n4 (fst (finalize render n1 n2 L))"
proof -
  let ?L1 = "snd (finalize render n1 n2 L)"
  have s: "get_summary ?L1 = get_summary L"
    by (rule get_summary_frame) (simp_all add: finalize_attributes)
  have a: "rollback_actions ?L1 = rollback_actions L"
    by (simp add: rollback_actions_def finalize_attributes)
  show ?thesis
    by (simp add: finalize_summary finalize_attributes finalize_files s a)
qed

text \<open>
  The execution log after two calls of \<^verbatim>\<open>finalize\<close>, even at the same clock readings,
  is the log after one call with the six lines of the closing block written once more.
\<close>

theorem C8_counterexample:
  "log_contents (snd (finalize example_render ''t5'' ''t6''
                        (snd (finalize example_render ''t5'' ''t6'' example_journal)))) =
   log_contents (snd (finalize example_render ''t5'' ''t6'' example_journal)) @
     [nl @ ''# '' @ replicate 70 (CHR ''='') @ nl,
      ''# Session Complete: t6'' @ nl,
      ''# Total changes: 3'' @ nl,
      ''# Successful: 2'' @ nl,
      ''# Failed: 1'' @ nl,
      ''# Rollback script: data/audit_logs/s1_rollback.ps1'' @ nl] \<and>
   length (log_contents (snd (finalize example_render ''t5'' ''t6''
                        (snd (finalize example_render ''t5'' ''t6'' example_journal))))) =
   length (log_contents (snd (finalize example_render ''t5'' ''t6'' example_journal))) + 6"
  by code_simp

end
